theory Spec2Isabelle
  imports Main "HOL-Library.AList" "HOL-Library.Sublist"
begin

section \<open>Values, errors and the host of the extension\<close>

text \<open>
  The extension (\<^verbatim>\<open>src/extension/rn-extension.ts\<close>) is a sequence of calls to
  asynchronous collaborators, chained by promise continuations. The model below is an
  explicit state machine: a call that returns a promise is recorded as pending together
  with the continuation that the source attaches to it, and a later step settles one
  pending call and runs its continuation.

  JavaScript values that flow through the continuations: \<^verbatim>\<open>undefined\<close>, booleans
  and strings. A rejected promise carries an \<^verbatim>\<open>Error\<close>, identified by its message.
\<close>

type_synonym path = string

datatype val = Undefined | Bool bool | Str string

datatype outcome = Rejected string | Fulfilled val

text \<open>JavaScript truthiness, as used by \<^verbatim>\<open>if (x)\<close>, \<^verbatim>\<open>!x\<close> and \<^verbatim>\<open>x || y\<close>.\<close>

fun js_truthy :: "val \<Rightarrow> bool" where
  "js_truthy Undefined = False"
| "js_truthy (Bool b) = b"
| "js_truthy (Str s) = (s \<noteq> [])"

definition js_or :: "val \<Rightarrow> val \<Rightarrow> val" where
  "js_or a b = (if js_truthy a then a else b)"

text \<open>\<^verbatim>\<open>process.env.NAME\<close>: the string value, or \<^verbatim>\<open>undefined\<close> when the variable is absent.\<close>

definition env_get :: "(string \<rightharpoonup> string) \<Rightarrow> string \<Rightarrow> val" where
  "env_get e n = (case e n of None \<Rightarrow> Undefined | Some s \<Rightarrow> Str s)"

text \<open>
  Everything the code reads but never changes: \<^verbatim>\<open>vscode.workspace.rootPath\<close>,
  \<^verbatim>\<open>__dirname\<close>, the resolved launcher module, the fields \<^verbatim>\<open>name\<close> and
  \<^verbatim>\<open>version\<close> of \<^verbatim>\<open>package.json\<close>, the result of \<^verbatim>\<open>os.type()\<close>, and the
  platform's \<^verbatim>\<open>path.join\<close> and \<^verbatim>\<open>path.resolve\<close> (Node selects the POSIX or the
  Windows implementation; the theorems hold for either, so they are parameters).
\<close>

record host =
  rootPath :: path
  dirname :: path
  launcherPath :: path
  pkg_name :: string
  pkg_version :: string
  os_type :: string
  path_join :: "string list \<Rightarrow> path"
  path_resolve :: "string list \<Rightarrow> path"

subsection \<open>Node's POSIX path module, for concrete hosts\<close>

text \<open>
  \<^verbatim>\<open>String.prototype.split('/')\<close>, \<^verbatim>\<open>Array.prototype.join('/')\<close> and the POSIX
  \<^verbatim>\<open>normalizeArray\<close>, \<^verbatim>\<open>normalize\<close>, \<^verbatim>\<open>join\<close> and \<^verbatim>\<open>resolve\<close> of Node's
  \<^verbatim>\<open>path\<close> module. They are used only to build the concrete host of the examples.
\<close>

fun split_slash :: "string \<Rightarrow> string list" where
  "split_slash [] = [[]]"
| "split_slash (c # cs) =
     (if c = CHR ''/'' then [] # split_slash cs
      else (case split_slash cs of [] \<Rightarrow> [[c]] | s # ss \<Rightarrow> (c # s) # ss))"

fun join_slash :: "string list \<Rightarrow> string" where
  "join_slash [] = []"
| "join_slash [s] = s"
| "join_slash (s # t # ss) = s @ ''/'' @ join_slash (t # ss)"

fun normalizeArray :: "string list \<Rightarrow> bool \<Rightarrow> string list \<Rightarrow> string list" where
  "normalizeArray [] allowAboveRoot res = res"
| "normalizeArray (p # parts) allowAboveRoot res =
     (if p = [] \<or> p = ''.'' then normalizeArray parts allowAboveRoot res
      else if p = ''..'' then
        (if res \<noteq> [] \<and> last res \<noteq> ''..'' then normalizeArray parts allowAboveRoot (butlast res)
         else if allowAboveRoot then normalizeArray parts allowAboveRoot (res @ [''..''])
         else normalizeArray parts allowAboveRoot res)
      else normalizeArray parts allowAboveRoot (res @ [p]))"

definition posix_isAbsolute :: "string \<Rightarrow> bool" where
  "posix_isAbsolute p = (case p of [] \<Rightarrow> False | c # _ \<Rightarrow> c = CHR ''/'')"

definition posix_normalize :: "string \<Rightarrow> string" where
  "posix_normalize p =
     (let isAbsolute = posix_isAbsolute p;
          trailingSlash = (p \<noteq> [] \<and> last p = CHR ''/'');
          p1 = join_slash (normalizeArray (split_slash p) (\<not> isAbsolute) []);
          p2 = (if p1 = [] \<and> \<not> isAbsolute then ''.'' else p1);
          p3 = (if p2 \<noteq> [] \<and> trailingSlash then p2 @ ''/'' else p2)
      in (if isAbsolute then ''/'' else []) @ p3)"

definition posix_join :: "string list \<Rightarrow> string" where
  "posix_join segments = posix_normalize (join_slash (filter (\<lambda>s. s \<noteq> []) segments))"

text \<open>
  \<^verbatim>\<open>resolve\<close> walks its arguments from the right, then \<^verbatim>\<open>process.cwd()\<close>, until the
  path built so far is absolute.
\<close>

fun resolve_loop :: "string list \<Rightarrow> string \<Rightarrow> bool \<Rightarrow> string \<times> bool" where
  "resolve_loop [] resolvedPath resolvedAbsolute = (resolvedPath, resolvedAbsolute)"
| "resolve_loop (p # ps) resolvedPath resolvedAbsolute =
     (if resolvedAbsolute then (resolvedPath, resolvedAbsolute)
      else if p = [] then resolve_loop ps resolvedPath resolvedAbsolute
      else resolve_loop ps (p @ ''/'' @ resolvedPath) (posix_isAbsolute p))"

definition posix_resolve :: "string \<Rightarrow> string list \<Rightarrow> string" where
  "posix_resolve cwd args =
     (case resolve_loop (rev args @ [cwd]) [] False of
        (resolvedPath, resolvedAbsolute) \<Rightarrow>
          (let r = (if resolvedAbsolute then ''/'' else []) @
                   join_slash (normalizeArray (split_slash resolvedPath) (\<not> resolvedAbsolute) [])
           in if r = [] then ''.'' else r))"

subsection \<open>\<^verbatim>\<open>JSON.stringify\<close> on a string\<close>

text \<open>
  A string is the UTF-8 bytes of the JavaScript string. \<^verbatim>\<open>JSON.stringify\<close> wraps it in
  double quotes and escapes the quote, the backslash and the control characters.
\<close>

definition hex_digit :: "nat \<Rightarrow> char" where
  "hex_digit n = (''0123456789abcdef'' ! (n mod 16))"

definition json_escape :: "char \<Rightarrow> string" where
  "json_escape c =
     (if c = CHR 0x22 then [CHR 0x5C, CHR 0x22]
      else if c = CHR 0x5C then [CHR 0x5C, CHR 0x5C]
      else if c = CHR 0x08 then [CHR 0x5C, CHR ''b'']
      else if c = CHR 0x0C then [CHR 0x5C, CHR ''f'']
      else if c = CHR 0x0A then [CHR 0x5C, CHR ''n'']
      else if c = CHR 0x0D then [CHR 0x5C, CHR ''r'']
      else if c = CHR 0x09 then [CHR 0x5C, CHR ''t'']
      else if of_char c < (0x20 :: nat)
        then [CHR 0x5C, CHR ''u'', CHR ''0'', CHR ''0'',
              hex_digit (of_char c div 16), hex_digit (of_char c)]
      else [c])"

definition JSON_stringify :: "string \<Rightarrow> string" where
  "JSON_stringify s = [CHR 0x22] @ concat (map json_escape s) @ [CHR 0x22]"

section \<open>The collaborators' state\<close>

text \<open>
  The classes \<^verbatim>\<open>FileSystem\<close>, \<^verbatim>\<open>TsConfigHelper\<close> and \<^verbatim>\<open>SettingsHelper\<close> are imported by
  the source but their files are not part of it. What a successful call does to the
  workspace is therefore taken from the specification; a failing call is a reply of the
  environment (see \<open>perform\<close> below) and leaves the state as it was.
\<close>

datatype node = Dir | File string

type_synonym filesystem = "(path \<times> node) list"

text \<open>
  Modelled from the spec: \<^verbatim>\<open>FileSystem.exists\<close> (\<^verbatim>\<open>common/node/fileSystem\<close> is missing);
  the asset provisioner "can test existence of a path".
\<close>

definition fs_exists :: "path \<Rightarrow> filesystem \<Rightarrow> bool" where
  "fs_exists p fs = (map_of fs p \<noteq> None)"

text \<open>
  Modelled from the spec: \<^verbatim>\<open>FileSystem.ensureDirectory\<close> (\<^verbatim>\<open>common/node/fileSystem\<close> is
  missing); "ensure the directory exists (create if absent, no error if already present)".
\<close>

definition fs_ensureDirectory :: "path \<Rightarrow> filesystem \<Rightarrow> filesystem" where
  "fs_ensureDirectory p fs = (if fs_exists p fs then fs else fs @ [(p, Dir)])"

text \<open>
  Modelled from the spec: \<^verbatim>\<open>FileSystem.ensureFileWithContents\<close> (\<^verbatim>\<open>common/node/fileSystem\<close>
  is missing); "write/overwrite the stub file unconditionally (no diffing, no backup of
  prior contents)".
\<close>

definition fs_ensureFileWithContents :: "path \<Rightarrow> string \<Rightarrow> filesystem \<Rightarrow> filesystem" where
  "fs_ensureFileWithContents p contents fs = AList.update p (File contents) fs"

text \<open>The tree of \<open>src\<close>: \<open>src\<close> itself and every path below it.\<close>

definition below :: "path \<Rightarrow> path \<Rightarrow> bool" where
  "below src p = (p = src \<or> take (Suc (length src)) p = src @ ''/'')"

text \<open>
  Modelled from the spec: \<^verbatim>\<open>FileSystem.copyRecursive\<close> (\<^verbatim>\<open>common/node/fileSystem\<close> is
  missing); "mirrors a source tree into" the destination, "overwriting/merging into any
  existing destination tree".
\<close>

definition fs_copyRecursive :: "path \<Rightarrow> path \<Rightarrow> filesystem \<Rightarrow> filesystem" where
  "fs_copyRecursive src dst fs =
     fold (\<lambda>(p, n) acc. AList.update (dst @ drop (length src) p) n acc)
          (filter (\<lambda>(p, n). below src p) fs) fs"

text \<open>
  Modelled from the spec: the TypeScript configuration document that \<^verbatim>\<open>TsConfigHelper\<close>
  edits (\<^verbatim>\<open>extension/tsconfigHelper\<close> is missing): "set one boolean flag, append one
  string to an array field", next to the fields this extension never touches.
\<close>

record tsconfig =
  allowJs :: "bool option"
  exclude :: "string list"
  unrelated :: "(string \<times> string) list"

text \<open>
  Modelled from the spec: \<^verbatim>\<open>TsConfigHelper.allowJs\<close> (\<^verbatim>\<open>extension/tsconfigHelper\<close> is
  missing); "set an allow non-typed-language files flag" to the given value, "without
  clobbering unrelated fields".
\<close>

definition tsconfig_allowJs :: "bool \<Rightarrow> tsconfig \<Rightarrow> tsconfig" where
  "tsconfig_allowJs enabled cfg = cfg\<lparr>allowJs := Some enabled\<rparr>"

text \<open>
  Modelled from the spec: \<^verbatim>\<open>TsConfigHelper.addExcludePaths\<close> (\<^verbatim>\<open>extension/tsconfigHelper\<close>
  is missing); "append to its exclusion list (additive: must not duplicate an existing
  entry, must not remove other existing exclusions)", order-preserving.
\<close>

fun tsconfig_addExcludePaths :: "string list \<Rightarrow> tsconfig \<Rightarrow> tsconfig" where
  "tsconfig_addExcludePaths [] cfg = cfg"
| "tsconfig_addExcludePaths (p # ps) cfg =
     tsconfig_addExcludePaths ps
       (if List.member (exclude cfg) p then cfg else cfg\<lparr>exclude := exclude cfg @ [p]\<rparr>)"

text \<open>
  Modelled from the spec: \<^verbatim>\<open>SettingsHelper.typescriptTsdk\<close> (\<^verbatim>\<open>extension/settingsHelper\<close>
  is missing); it "records a chosen compiler-toolchain path into editor settings".
\<close>

definition settings_typescriptTsdk :: "path \<Rightarrow> path option \<Rightarrow> path option" where
  "settings_typescriptTsdk p current = Some p"

section \<open>Calls, continuations and the world\<close>

text \<open>
  One constructor per collaborator method the source calls. Each returns a promise (or a
  value that the source drops).
\<close>

datatype call =
    IsReactNativeProject path
  | EnsureDirectory path
  | EnsureFileWithContents path string
  | ShowErrorMessage string
  | ShowInformationMessage string "string list"
  | AllowJs bool
  | AddExcludePaths "string list"
  | CopyRecursive path path
  | Exists path
  | TypescriptTsdk path
  | Exec string

text \<open>
  The callbacks of the source, with the variables they close over. \<open>Then_\<close> constructors
  are \<^verbatim>\<open>.then(...)\<close> callbacks; a rejection skips them and travels down the chain to
  the next \<^verbatim>\<open>.catch\<close> or \<^verbatim>\<open>.done()\<close>.
  \<^item> \<open>Activated\<close>: lines 17-23, the callback on \<^verbatim>\<open>isReactNativeProject()\<close>; no
    rejection handler follows it.
  \<^item> \<open>ThenWriteStub\<close>: line 64, followed by the \<^verbatim>\<open>.catch\<close> of line 65.
  \<^item> \<open>CatchShowError\<close>: lines 65-67 alone, on the promise of the stub write.
  \<^item> \<open>ThenEnableSalsa\<close>: lines 73-77, on the opt-in prompt.
  \<^item> \<open>ThenAddExcludePaths\<close>: lines 81-83, followed by \<^verbatim>\<open>.done()\<close>.
  \<^item> \<open>ThenInstallTypescriptNext\<close>: lines 91-93, followed by \<^verbatim>\<open>.done()\<close>.
  \<^item> \<open>ThenCopyIfAbsent\<close>: lines 106-110 of \<^verbatim>\<open>installTypescriptNext\<close>, followed by the
    callback of lines 111-113 and then by what the caller attaches to the returned promise.
  \<^item> \<open>ThenTypescriptTsdk\<close>: lines 111-113, followed by the caller's continuation.
  \<^item> \<open>ThenRestartNotice\<close>: lines 129-131, followed by \<^verbatim>\<open>.done()\<close>.
  \<^item> \<open>Finish\<close>: a bare \<^verbatim>\<open>.done()\<close>.
  \<^item> \<open>Dropped\<close>: the returned promise is not used.
\<close>

datatype cont =
    Activated
  | ThenWriteStub path string
  | CatchShowError
  | ThenEnableSalsa
  | ThenAddExcludePaths
  | ThenInstallTypescriptNext
  | ThenCopyIfAbsent path path path cont
  | ThenTypescriptTsdk path cont
  | ThenRestartNotice
  | Finish
  | Dropped

datatype handler_method = RunAndroid | RunIos | StartPackager | StopPackager

datatype disposable = CommandRegistration string | ReactDirManager

text \<open>
  What an observer of the extension sees, in order: a call being issued with its
  continuation attached, a call settling, a registered command delegating to a method of
  the \<^verbatim>\<open>CommandPaletteHandler\<close> built from a root path, and a rejection reaching
  \<^verbatim>\<open>.done()\<close> (which rethrows it).
\<close>

datatype event =
    Issue call cont
  | Settle call cont outcome
  | Delegate path handler_method
  | Unhandled string

record world =
  env :: "string \<rightharpoonup> string"
  fs :: filesystem
  tsconfig_doc :: tsconfig
  typescript_tsdk :: "path option"
  commands :: "(string \<times> path \<times> handler_method) list"
  subscriptions :: "disposable list"
  pending :: "(call \<times> cont) list"
  trace :: "event list"

text \<open>Issuing a call: it becomes pending with its continuation, and is seen.\<close>

definition issue :: "call \<Rightarrow> cont \<Rightarrow> world \<Rightarrow> world" where
  "issue c k w = w\<lparr>pending := pending w @ [(c, k)], trace := trace w @ [Issue c k]\<rparr>"

definition unhandled :: "string \<Rightarrow> world \<Rightarrow> world" where
  "unhandled msg w = w\<lparr>trace := trace w @ [Unhandled msg]\<rparr>"

section \<open>The functions of \<^verbatim>\<open>rn-extension.ts\<close>\<close>

subsection \<open>\<^verbatim>\<open>setupReactNativeDebugger\<close> (lines 42-68)\<close>

text \<open>
  The template literal of lines 48-57. A line break inside a template literal is one
  line-feed character whatever the line ending of the source file.
\<close>

definition debuggerEntryCode :: "host \<Rightarrow> string" where
  \<open>debuggerEntryCode h =
     ''// This file is automatically generated by '' @ pkg_name h @ ''@'' @ pkg_version h @ [CHR 0x0A] @
     ''// Please do not modify it manually. All changes will be lost.'' @ [CHR 0x0A] @
     ''try {'' @ [CHR 0x0A] @
     ''    var path = require("path");'' @ [CHR 0x0A] @
     ''    var Launcher = require('' @ JSON_stringify (launcherPath h) @ '').Launcher;'' @ [CHR 0x0A] @
     ''    new Launcher(path.resolve(__dirname, "..")).launch();'' @ [CHR 0x0A] @
     ''} catch (e) {'' @ [CHR 0x0A] @
     ''    throw new Error("Unable to launch application. Try deleting .vscode/launchReactNative.js and restarting vscode.");'' @ [CHR 0x0A] @
     ''}''\<close>

definition vscodeFolder :: "host \<Rightarrow> path" where
  "vscodeFolder h = path_join h [rootPath h, ''.vscode'']"

definition debugStub :: "host \<Rightarrow> path" where
  "debugStub h = path_join h [vscodeFolder h, ''launchReactNative.js'']"

definition setupReactNativeDebugger :: "host \<Rightarrow> world \<Rightarrow> world" where
  "setupReactNativeDebugger h w =
     issue (EnsureDirectory (vscodeFolder h)) (ThenWriteStub (debugStub h) (debuggerEntryCode h)) w"

subsection \<open>\<^verbatim>\<open>installTypescriptNext\<close> (lines 97-114)\<close>

definition typeScriptNextSource :: "host \<Rightarrow> path" where
  "typeScriptNextSource h = path_resolve h [dirname h, ''..'', ''..'', ''TypescriptNext'']"

definition typeScriptNextDest :: "host \<Rightarrow> path" where
  "typeScriptNextDest h = path_resolve h [rootPath h, ''.vscode'']"

definition typeScriptNextLibPath :: "host \<Rightarrow> path" where
  "typeScriptNextLibPath h = path_join h [typeScriptNextDest h, ''typescript'', ''lib'']"

text \<open>
  The argument \<open>k\<close> is what the caller attaches to the returned promise. Line 103 reads
  \<^verbatim>\<open>HOME\<close> and \<^verbatim>\<open>USERPROFILE\<close> into the local \<^verbatim>\<open>p\<close>.
\<close>

definition installTypescriptNext :: "host \<Rightarrow> cont \<Rightarrow> world \<Rightarrow> world" where
  "installTypescriptNext h k w =
     (let p = js_or (env_get (env w) ''HOME'') (env_get (env w) ''USERPROFILE'')
      in issue (Exists (typeScriptNextLibPath h))
           (ThenCopyIfAbsent (typeScriptNextSource h) (typeScriptNextDest h)
              (typeScriptNextLibPath h) k) w)"

subsection \<open>\<^verbatim>\<open>enableSalsa\<close> (lines 116-134)\<close>

definition setSalsaEnvVariable :: "host \<Rightarrow> string" where
  "setSalsaEnvVariable h =
     (if os_type h = ''Darwin'' then ''launchctl setenv VSCODE_TSJS 1''
      else if os_type h = ''Windows'' then ''setx VSCODE_TSJS 1''
      else [])"

definition restartNotice :: string where
  "restartNotice = ''Salsa intellisense for VS Code was turned on. Restart to enable it.''"

definition enableSalsa :: "host \<Rightarrow> world \<Rightarrow> world" where
  "enableSalsa h w =
     (if \<not> js_truthy (env_get (env w) ''VSCODE_TSJS'')
      then installTypescriptNext h ThenRestartNotice (issue (Exec (setSalsaEnvVariable h)) Dropped w)
      else w)"

subsection \<open>\<^verbatim>\<open>setupReactNativeIntellisense\<close> (lines 70-95)\<close>

definition salsaPrompt :: call where
  "salsaPrompt = ShowInformationMessage ''Turn on Salsa intellisense for VS Code?'' [''Yes'']"

definition reactTypingsSource :: "host \<Rightarrow> path" where
  "reactTypingsSource h = path_resolve h [dirname h, ''..'', ''..'', ''ReactTypings'']"

definition reactTypingsDest :: "host \<Rightarrow> path" where
  "reactTypingsDest h = path_resolve h [rootPath h, ''.vscode'', ''typings'']"

definition setupReactNativeIntellisense :: "host \<Rightarrow> world \<Rightarrow> world" where
  "setupReactNativeIntellisense h w =
     (let w1 = (if \<not> js_truthy (env_get (env w) ''VSCODE_TSJS'')
                then issue salsaPrompt ThenEnableSalsa w else w);
          w2 = issue (AllowJs True) ThenAddExcludePaths w1
      in issue (CopyRecursive (reactTypingsSource h) (reactTypingsDest h))
           ThenInstallTypescriptNext w2)"

subsection \<open>\<^verbatim>\<open>activate\<close> (lines 15-36)\<close>

text \<open>
  \<^verbatim>\<open>context.subscriptions.push(vscode.commands.registerCommand(name, callback))\<close>, where the
  callback is \<^verbatim>\<open>() => commandPaletteHandler.method()\<close> and the handler was constructed from
  the root path.
\<close>

definition registerCommand :: "string \<Rightarrow> path \<Rightarrow> handler_method \<Rightarrow> world \<Rightarrow> world" where
  "registerCommand name root m w =
     w\<lparr>commands := commands w @ [(name, root, m)],
       subscriptions := subscriptions w @ [CommandRegistration name]\<rparr>"

definition activate :: "host \<Rightarrow> world \<Rightarrow> world" where
  "activate h w =
     (let w1 = issue (IsReactNativeProject (rootPath h)) Activated w;
          commandPaletteHandler = rootPath h;
          w2 = registerCommand ''reactNative.runAndroid'' commandPaletteHandler RunAndroid w1;
          w3 = registerCommand ''reactNative.runIos'' commandPaletteHandler RunIos w2;
          w4 = registerCommand ''reactNative.startPackager'' commandPaletteHandler StartPackager w3
      in registerCommand ''reactNative.stopPackager'' commandPaletteHandler StopPackager w4)"

text \<open>The editor running a registered command: it calls the registered callback.\<close>

definition executeCommand :: "string \<Rightarrow> world \<Rightarrow> world" where
  "executeCommand name w =
     (case map_of (commands w) name of
        None \<Rightarrow> w
      | Some (root, m) \<Rightarrow> w\<lparr>trace := trace w @ [Delegate root m]\<rparr>)"

section \<open>Settling a call and running its continuation\<close>

text \<open>
  The reply of the environment to a pending call: it fails with an error message, it
  succeeds, or (for the applicability check and the notifications) it answers a value.
\<close>

datatype reply = Fail string | Ok | Answer val

text \<open>
  The effect of a settled call on the collaborators' state and the outcome of its
  promise; \<open>None\<close> when the reply does not fit the call. A failing call changes nothing.
\<close>

fun perform :: "call \<Rightarrow> reply \<Rightarrow> world \<Rightarrow> (outcome \<times> world) option" where
  "perform c (Fail msg) w = Some (Rejected msg, w)"
| "perform (IsReactNativeProject root) (Answer v) w = Some (Fulfilled v, w)"
| "perform (ShowInformationMessage msg items) (Answer v) w = Some (Fulfilled v, w)"
| "perform (ShowErrorMessage msg) (Answer v) w = Some (Fulfilled v, w)"
| "perform (EnsureDirectory p) Ok w =
     Some (Fulfilled Undefined, w\<lparr>fs := fs_ensureDirectory p (fs w)\<rparr>)"
| "perform (EnsureFileWithContents p contents) Ok w =
     Some (Fulfilled Undefined, w\<lparr>fs := fs_ensureFileWithContents p contents (fs w)\<rparr>)"
| "perform (CopyRecursive src dst) Ok w =
     Some (Fulfilled Undefined, w\<lparr>fs := fs_copyRecursive src dst (fs w)\<rparr>)"
| "perform (Exists p) Ok w = Some (Fulfilled (Bool (fs_exists p (fs w))), w)"
| "perform (AllowJs enabled) Ok w =
     Some (Fulfilled Undefined, w\<lparr>tsconfig_doc := tsconfig_allowJs enabled (tsconfig_doc w)\<rparr>)"
| "perform (AddExcludePaths ps) Ok w =
     Some (Fulfilled Undefined, w\<lparr>tsconfig_doc := tsconfig_addExcludePaths ps (tsconfig_doc w)\<rparr>)"
| "perform (TypescriptTsdk p) Ok w =
     Some (Fulfilled Undefined,
           w\<lparr>typescript_tsdk := settings_typescriptTsdk p (typescript_tsdk w)\<rparr>)"
| "perform (Exec cmd) Ok w = Some (Fulfilled Undefined, w)"
| "perform c r w = None"

text \<open>
  Running a continuation on the outcome of its promise. A \<^verbatim>\<open>.then\<close> callback runs on
  fulfilment; on rejection the error goes to the first handler further down the chain.
\<close>

fun resume :: "host \<Rightarrow> cont \<Rightarrow> outcome \<Rightarrow> world \<Rightarrow> world" where
  "resume h Activated (Fulfilled isRNProject) w =
     (if js_truthy isRNProject
      then (let w1 = setupReactNativeDebugger h w;
                w2 = setupReactNativeIntellisense h w1
            in w2\<lparr>subscriptions := subscriptions w2 @ [ReactDirManager]\<rparr>)
      else w)"
| "resume h Activated (Rejected err) w = w"
| "resume h (ThenWriteStub stub code) (Fulfilled v) w =
     issue (EnsureFileWithContents stub code) CatchShowError w"
| "resume h (ThenWriteStub stub code) (Rejected err) w = issue (ShowErrorMessage err) Dropped w"
| "resume h CatchShowError (Fulfilled v) w = w"
| "resume h CatchShowError (Rejected err) w = issue (ShowErrorMessage err) Dropped w"
| "resume h ThenEnableSalsa (Fulfilled result) w =
     (if result = Str ''Yes'' then enableSalsa h w else w)"
| "resume h ThenEnableSalsa (Rejected err) w = w"
| "resume h ThenAddExcludePaths (Fulfilled v) w = issue (AddExcludePaths [''node_modules'']) Finish w"
| "resume h ThenAddExcludePaths (Rejected err) w = unhandled err w"
| "resume h ThenInstallTypescriptNext (Fulfilled v) w = installTypescriptNext h Finish w"
| "resume h ThenInstallTypescriptNext (Rejected err) w = unhandled err w"
| "resume h (ThenCopyIfAbsent src dst lib k) (Fulfilled exists) w =
     (if \<not> js_truthy exists then issue (CopyRecursive src dst) (ThenTypescriptTsdk lib k) w
      else issue (TypescriptTsdk lib) k w)"
| "resume h (ThenCopyIfAbsent src dst lib k) (Rejected err) w = resume h k (Rejected err) w"
| "resume h (ThenTypescriptTsdk lib k) (Fulfilled v) w = issue (TypescriptTsdk lib) k w"
| "resume h (ThenTypescriptTsdk lib k) (Rejected err) w = resume h k (Rejected err) w"
| "resume h ThenRestartNotice (Fulfilled v) w = issue (ShowInformationMessage restartNotice []) Dropped w"
| "resume h ThenRestartNotice (Rejected err) w = unhandled err w"
| "resume h Finish (Fulfilled v) w = w"
| "resume h Finish (Rejected err) w = unhandled err w"
| "resume h Dropped out w = w"

text \<open>
  One step of the event loop: a pending call settles with the reply of the environment,
  its effect on the collaborators' state takes place, and its continuation runs to
  completion (callbacks are never interleaved: the process is single-threaded). Callbacks
  that the promise library runs in consecutive turns with no call in between, such as
  lines 106-110 and 111-113 when the path exists, are run in the same step. Nothing
  happens when the call is not pending or the reply does not fit.
\<close>

definition settle :: "host \<Rightarrow> call \<times> cont \<Rightarrow> reply \<Rightarrow> world \<Rightarrow> world" where
  "settle h ck r w =
     (if List.member (pending w) ck then
        (case perform (fst ck) r w of
           None \<Rightarrow> w
         | Some (out, w1) \<Rightarrow>
             resume h (snd ck) out
               (w1\<lparr>pending := remove1 ck (pending w1),
                   trace := trace w1 @ [Settle (fst ck) (snd ck) out]\<rparr>))
      else w)"

text \<open>
  What can happen between two callbacks: a pending call settles, or something else in
  the process changes \<^verbatim>\<open>process.env\<close>.
\<close>

datatype action = Settles "call \<times> cont" reply | SetEnv string "string option"

fun step :: "host \<Rightarrow> action \<Rightarrow> world \<Rightarrow> world" where
  "step h (Settles ck r) w = settle h ck r w"
| "step h (SetEnv n v) w = w\<lparr>env := (env w)(n := v)\<rparr>"

fun run :: "host \<Rightarrow> action list \<Rightarrow> world \<Rightarrow> world" where
  "run h [] w = w"
| "run h (a # as) w = run h as (step h a w)"

subsection \<open>A concrete host and a fresh world\<close>

definition posix_host :: host where
  "posix_host = \<lparr>rootPath = ''/proj'', dirname = ''/ext/out/extension'',
     launcherPath = ''/ext/out/debugger/launcher.js'', pkg_name = ''vscode-react-native'',
     pkg_version = ''0.1.0'', os_type = ''Linux'',
     path_join = posix_join, path_resolve = posix_resolve ''/home/dev''\<rparr>"

definition fresh :: world where
  "fresh = \<lparr>env = Map.empty, fs = [], tsconfig_doc = \<lparr>allowJs = None, exclude = [], unrelated = []\<rparr>,
     typescript_tsdk = None, commands = [], subscriptions = [], pending = [], trace = []\<rparr>"

subsection \<open>What \<^verbatim>\<open>os.type()\<close> returns\<close>

text \<open>
  Node's \<^verbatim>\<open>os.type()\<close> is the system name of \<^verbatim>\<open>uname(3)\<close>: \<^verbatim>\<open>Darwin\<close> on macOS,
  \<^verbatim>\<open>Linux\<close> on Linux and \<^verbatim>\<open>Windows_NT\<close> on Windows.
\<close>

datatype os_family = MacOS | Windows | Linux

definition node_os_type :: "os_family \<Rightarrow> string" where
  "node_os_type f = (case f of MacOS \<Rightarrow> ''Darwin'' | Windows \<Rightarrow> ''Windows_NT'' | Linux \<Rightarrow> ''Linux'')"

subsection \<open>Order of events in a trace\<close>

text \<open>
  \<open>precedes a b tr\<close>: the event \<open>b\<close> does not occur in \<open>tr\<close> unless \<open>a\<close> has occurred
  earlier.
\<close>

fun precedes :: "'a \<Rightarrow> 'a \<Rightarrow> 'a list \<Rightarrow> bool" where
  "precedes a b [] = True"
| "precedes a b (x # xs) = (x = a \<or> (x \<noteq> b \<and> precedes a b xs))"

text \<open>
  How the source attaches callbacks: \<open>ThenAddExcludePaths\<close> only to \<^verbatim>\<open>allowJs(true)\<close>
  (lines 80-81), \<open>ThenInstallTypescriptNext\<close> only to the copy of the typings (lines
  90-91), and the promise of \<^verbatim>\<open>installTypescriptNext\<close> is given either \<^verbatim>\<open>.done()\<close>
  (line 94) or the restart notice (line 129).
\<close>

fun attached_as_written :: "host \<Rightarrow> call \<times> cont \<Rightarrow> bool" where
  "attached_as_written h (c, ThenAddExcludePaths) = (c = AllowJs True)"
| "attached_as_written h (c, ThenInstallTypescriptNext) =
     (c = CopyRecursive (reactTypingsSource h) (reactTypingsDest h))"
| "attached_as_written h (c, ThenCopyIfAbsent src dst lib k) = (k = Finish \<or> k = ThenRestartNotice)"
| "attached_as_written h (c, ThenTypescriptTsdk lib k) = (k = Finish \<or> k = ThenRestartNotice)"
| "attached_as_written h (c, k) = True"

subsection \<open>Changing the home variables\<close>

text \<open>The same world with \<^verbatim>\<open>HOME\<close> and \<^verbatim>\<open>USERPROFILE\<close> set (or unset) differently.\<close>

definition set_home :: "string option \<Rightarrow> string option \<Rightarrow> world \<Rightarrow> world" where
  "set_home a b w = w\<lparr>env := (env w)(''HOME'' := a, ''USERPROFILE'' := b)\<rparr>"

text \<open>
  The invariant of every run: callbacks are attached as the source attaches them, the
  exclusion list is not extended before \<^verbatim>\<open>allowJs(true)\<close> has succeeded, and the
  installation that follows the typings is not started before their copy has succeeded.
\<close>

definition chains_in_order :: "host \<Rightarrow> world \<Rightarrow> bool" where
  "chains_in_order h w =
     (list_all (attached_as_written h) (pending w) \<and>
      precedes (Settle (AllowJs True) ThenAddExcludePaths (Fulfilled Undefined))
               (Issue (AddExcludePaths [''node_modules'']) Finish) (trace w) \<and>
      precedes (Settle (CopyRecursive (reactTypingsSource h) (reactTypingsDest h))
                  ThenInstallTypescriptNext (Fulfilled Undefined))
               (Issue (Exists (typeScriptNextLibPath h))
                  (ThenCopyIfAbsent (typeScriptNextSource h) (typeScriptNextDest h)
                     (typeScriptNextLibPath h) Finish)) (trace w))"

section \<open>Basic facts about the steps\<close>

lemma settings_typescriptTsdk_value [simp]: "settings_typescriptTsdk p current = Some p"
  by (simp add: settings_typescriptTsdk_def)

lemma issue_fields [simp]:
  "trace (issue c k w) = trace w @ [Issue c k]"
  "pending (issue c k w) = pending w @ [(c, k)]"
  "env (issue c k w) = env w"
  "fs (issue c k w) = fs w"
  "tsconfig_doc (issue c k w) = tsconfig_doc w"
  "typescript_tsdk (issue c k w) = typescript_tsdk w"
  "commands (issue c k w) = commands w"
  "subscriptions (issue c k w) = subscriptions w"
  by (simp_all add: issue_def)

lemma unhandled_fields [simp]:
  "trace (unhandled m w) = trace w @ [Unhandled m]"
  "pending (unhandled m w) = pending w"
  "env (unhandled m w) = env w"
  "fs (unhandled m w) = fs w"
  "tsconfig_doc (unhandled m w) = tsconfig_doc w"
  "typescript_tsdk (unhandled m w) = typescript_tsdk w"
  "commands (unhandled m w) = commands w"
  "subscriptions (unhandled m w) = subscriptions w"
  by (simp_all add: unhandled_def)

lemma registerCommand_fields [simp]:
  "trace (registerCommand n r m w) = trace w"
  "pending (registerCommand n r m w) = pending w"
  "env (registerCommand n r m w) = env w"
  "fs (registerCommand n r m w) = fs w"
  "tsconfig_doc (registerCommand n r m w) = tsconfig_doc w"
  "typescript_tsdk (registerCommand n r m w) = typescript_tsdk w"
  "commands (registerCommand n r m w) = commands w @ [(n, r, m)]"
  "subscriptions (registerCommand n r m w) = subscriptions w @ [CommandRegistration n]"
  by (simp_all add: registerCommand_def)

lemma setupReactNativeDebugger_fields [simp]:
  "trace (setupReactNativeDebugger h w) =
     trace w @ [Issue (EnsureDirectory (vscodeFolder h)) (ThenWriteStub (debugStub h) (debuggerEntryCode h))]"
  "pending (setupReactNativeDebugger h w) =
     pending w @ [(EnsureDirectory (vscodeFolder h), ThenWriteStub (debugStub h) (debuggerEntryCode h))]"
  "env (setupReactNativeDebugger h w) = env w"
  "fs (setupReactNativeDebugger h w) = fs w"
  "tsconfig_doc (setupReactNativeDebugger h w) = tsconfig_doc w"
  "typescript_tsdk (setupReactNativeDebugger h w) = typescript_tsdk w"
  "commands (setupReactNativeDebugger h w) = commands w"
  "subscriptions (setupReactNativeDebugger h w) = subscriptions w"
  by (simp_all add: setupReactNativeDebugger_def)

lemma installTypescriptNext_fields [simp]:
  "trace (installTypescriptNext h k w) =
     trace w @ [Issue (Exists (typeScriptNextLibPath h))
       (ThenCopyIfAbsent (typeScriptNextSource h) (typeScriptNextDest h) (typeScriptNextLibPath h) k)]"
  "pending (installTypescriptNext h k w) =
     pending w @ [(Exists (typeScriptNextLibPath h),
       ThenCopyIfAbsent (typeScriptNextSource h) (typeScriptNextDest h) (typeScriptNextLibPath h) k)]"
  "env (installTypescriptNext h k w) = env w"
  "fs (installTypescriptNext h k w) = fs w"
  "tsconfig_doc (installTypescriptNext h k w) = tsconfig_doc w"
  "typescript_tsdk (installTypescriptNext h k w) = typescript_tsdk w"
  "commands (installTypescriptNext h k w) = commands w"
  "subscriptions (installTypescriptNext h k w) = subscriptions w"
  by (simp_all add: installTypescriptNext_def Let_def)

lemma enableSalsa_fields [simp]:
  "env (enableSalsa h w) = env w"
  "fs (enableSalsa h w) = fs w"
  "tsconfig_doc (enableSalsa h w) = tsconfig_doc w"
  "typescript_tsdk (enableSalsa h w) = typescript_tsdk w"
  "commands (enableSalsa h w) = commands w"
  "subscriptions (enableSalsa h w) = subscriptions w"
  by (simp_all add: enableSalsa_def)

lemma setupReactNativeIntellisense_fields [simp]:
  "env (setupReactNativeIntellisense h w) = env w"
  "fs (setupReactNativeIntellisense h w) = fs w"
  "tsconfig_doc (setupReactNativeIntellisense h w) = tsconfig_doc w"
  "typescript_tsdk (setupReactNativeIntellisense h w) = typescript_tsdk w"
  "commands (setupReactNativeIntellisense h w) = commands w"
  "subscriptions (setupReactNativeIntellisense h w) = subscriptions w"
  by (simp_all add: setupReactNativeIntellisense_def Let_def)

lemma resume_frame [simp]:
  "env (resume h k out w) = env w"
  "fs (resume h k out w) = fs w"
  "tsconfig_doc (resume h k out w) = tsconfig_doc w"
  "typescript_tsdk (resume h k out w) = typescript_tsdk w"
  "commands (resume h k out w) = commands w"
  by (induction h k out w rule: resume.induct; simp add: Let_def)+

lemma perform_commands: "perform c r w = Some (out, w1) \<Longrightarrow> commands w1 = commands w"
  by (induction c r w rule: perform.induct) auto

lemma settle_commands [simp]: "commands (settle h ck r w) = commands w"
  by (auto simp: settle_def split: option.splits dest: perform_commands)

lemma step_commands [simp]: "commands (step h a w) = commands w"
  by (cases a) simp_all

lemma run_commands [simp]: "commands (run h acts w) = commands w"
  by (induction acts arbitrary: w) simp_all

lemma set_home_fields [simp]:
  "trace (set_home a b w) = trace w"
  "pending (set_home a b w) = pending w"
  "fs (set_home a b w) = fs w"
  "tsconfig_doc (set_home a b w) = tsconfig_doc w"
  "typescript_tsdk (set_home a b w) = typescript_tsdk w"
  "commands (set_home a b w) = commands w"
  "subscriptions (set_home a b w) = subscriptions w"
  "env_get (env (set_home a b w)) ''VSCODE_TSJS'' = env_get (env w) ''VSCODE_TSJS''"
  by (simp_all add: set_home_def env_get_def)

lemma set_home_issue: "issue c k (set_home a b w) = set_home a b (issue c k w)"
  by (simp add: set_home_def issue_def)

lemma set_home_unhandled: "unhandled m (set_home a b w) = set_home a b (unhandled m w)"
  by (simp add: set_home_def unhandled_def)

lemma set_home_install: "installTypescriptNext h k (set_home a b w) = set_home a b (installTypescriptNext h k w)"
  by (simp add: installTypescriptNext_def Let_def set_home_issue)

lemma set_home_enableSalsa: "enableSalsa h (set_home a b w) = set_home a b (enableSalsa h w)"
  by (simp add: enableSalsa_def set_home_issue set_home_install)

lemma set_home_debugger: "setupReactNativeDebugger h (set_home a b w) = set_home a b (setupReactNativeDebugger h w)"
  by (simp add: setupReactNativeDebugger_def set_home_issue)

lemma set_home_intellisense: "setupReactNativeIntellisense h (set_home a b w) = set_home a b (setupReactNativeIntellisense h w)"
  by (simp add: setupReactNativeIntellisense_def Let_def set_home_issue)

lemma set_home_subs: "(set_home a b w)\<lparr>subscriptions := s\<rparr> = set_home a b (w\<lparr>subscriptions := s\<rparr>)"
  by (simp add: set_home_def)

lemma set_home_resume: "resume h k out (set_home a b w) = set_home a b (resume h k out w)"
  by (induction h k out w rule: resume.induct)
     (simp_all add: Let_def set_home_issue set_home_unhandled set_home_install set_home_enableSalsa set_home_debugger set_home_intellisense set_home_subs)

lemma set_home_perform:
  "perform c r (set_home a b w) = map_option (\<lambda>(out, w1). (out, set_home a b w1)) (perform c r w)"
  by (induction c r w rule: perform.induct) (simp_all add: set_home_def)

lemma set_home_upd: "(set_home a b w)\<lparr>pending := p, trace := t\<rparr> = set_home a b (w\<lparr>pending := p, trace := t\<rparr>)"
  by (simp add: set_home_def)

lemma set_home_settle: "settle h ck r (set_home a b w) = set_home a b (settle h ck r w)"
  by (cases "perform (fst ck) r w") (auto simp: settle_def set_home_perform set_home_resume set_home_upd)

lemma set_home_run: "run h (map (\<lambda>(ck, r). Settles ck r) rs) (set_home a b w) =
   set_home a b (run h (map (\<lambda>(ck, r). Settles ck r) rs) w)"
  by (induction rs arbitrary: w) (auto simp: set_home_settle)

lemma perform_env: "perform c r w = Some (out, w1) \<Longrightarrow> env w1 = env w"
  by (induction c r w rule: perform.induct) auto

lemma settle_env [simp]: "env (settle h ck r w) = env w"
  by (auto simp: settle_def split: option.splits dest: perform_env)

lemma run_settles_env: "env (run h (map (\<lambda>(ck, r). Settles ck r) rs) w) = env w"
  by (induction rs arbitrary: w) auto

lemma setupReactNativeIntellisense_trace:
  "trace (setupReactNativeIntellisense h w) =
     trace w @
     (if js_truthy (env_get (env w) ''VSCODE_TSJS'') then [] else [Issue salsaPrompt ThenEnableSalsa]) @
     [Issue (AllowJs True) ThenAddExcludePaths,
      Issue (CopyRecursive (reactTypingsSource h) (reactTypingsDest h)) ThenInstallTypescriptNext]"
  by (simp add: setupReactNativeIntellisense_def Let_def)

lemma enableSalsa_trace:
  "trace (enableSalsa h w) =
     trace w @
     (if js_truthy (env_get (env w) ''VSCODE_TSJS'') then []
      else [Issue (Exec (setSalsaEnvVariable h)) Dropped,
            Issue (Exists (typeScriptNextLibPath h))
              (ThenCopyIfAbsent (typeScriptNextSource h) (typeScriptNextDest h)
                 (typeScriptNextLibPath h) ThenRestartNotice)])"
  by (simp add: enableSalsa_def)

lemma resume_trace_extends: "\<exists>es. trace (resume h k out w) = trace w @ es"
  by (induction h k out w rule: resume.induct)
     (simp_all add: Let_def setupReactNativeIntellisense_trace enableSalsa_trace)

lemma resume_trace_prefix [simp]:
  "prefix tr (trace w) \<Longrightarrow> prefix tr (trace (resume h k out w))"
  using resume_trace_extends [of h k out w] by (auto simp: prefix_def)

lemma map_of_ensureFileWithContents [simp]:
  "map_of (fs_ensureFileWithContents p c fs0) p = Some (File c)"
  by (simp add: fs_ensureFileWithContents_def update_conv')

lemma provision_writes_stub:
  "map_of (fs (run h
      [Settles (EnsureDirectory (vscodeFolder h), ThenWriteStub (debugStub h) (debuggerEntryCode h)) Ok,
       Settles (EnsureFileWithContents (debugStub h) (debuggerEntryCode h), CatchShowError) Ok]
      (setupReactNativeDebugger h w))) (debugStub h) = Some (File (debuggerEntryCode h))"
  by (simp add: settle_def)

lemma fs_exists_ensureDirectory [simp]: "fs_exists p (fs_ensureDirectory p fs0)"
  by (auto simp: fs_ensureDirectory_def fs_exists_def map_add_def)

lemma fs_ensureDirectory_cases:
  "(if fs_exists p fs0 then fs_ensureDirectory p fs0 = fs0
    else fs_ensureDirectory p fs0 = fs0 @ [(p, Dir)])"
  by (simp add: fs_ensureDirectory_def)

lemma precedes_absent: "b \<notin> set xs \<Longrightarrow> precedes a b xs"
  by (induction xs) auto

lemma precedes_append: "precedes a b xs \<Longrightarrow> precedes a b ys \<Longrightarrow> precedes a b (xs @ ys)"
  by (induction xs) auto

lemma setupReactNativeIntellisense_pending:
  "pending (setupReactNativeIntellisense h w) =
     pending w @
     (if js_truthy (env_get (env w) ''VSCODE_TSJS'') then [] else [(salsaPrompt, ThenEnableSalsa)]) @
     [(AllowJs True, ThenAddExcludePaths),
      (CopyRecursive (reactTypingsSource h) (reactTypingsDest h), ThenInstallTypescriptNext)]"
  by (simp add: setupReactNativeIntellisense_def Let_def)

lemma enableSalsa_pending:
  "pending (enableSalsa h w) =
     pending w @
     (if js_truthy (env_get (env w) ''VSCODE_TSJS'') then []
      else [(Exec (setSalsaEnvVariable h), Dropped),
            (Exists (typeScriptNextLibPath h),
              ThenCopyIfAbsent (typeScriptNextSource h) (typeScriptNextDest h)
                 (typeScriptNextLibPath h) ThenRestartNotice)])"
  by (simp add: enableSalsa_def)

lemma resume_emits:
  "attached_as_written h (c, k) \<Longrightarrow>
   \<exists>es ps. trace (resume h k out w) = trace w @ es \<and>
     pending (resume h k out w) = pending w @ ps \<and>
     list_all (attached_as_written h) ps \<and>
     (Issue (AddExcludePaths [''node_modules'']) Finish \<in> set es \<longrightarrow>
        k = ThenAddExcludePaths \<and> (\<exists>v. out = Fulfilled v)) \<and>
     (Issue (Exists (typeScriptNextLibPath h))
        (ThenCopyIfAbsent (typeScriptNextSource h) (typeScriptNextDest h)
           (typeScriptNextLibPath h) Finish) \<in> set es \<longrightarrow>
        k = ThenInstallTypescriptNext \<and> (\<exists>v. out = Fulfilled v))"
proof (induction h k out w rule: resume.induct)
  case (1 h isRNProject w)
  then show ?case
    by (simp add: Let_def setupReactNativeIntellisense_trace setupReactNativeIntellisense_pending
          salsaPrompt_def)
next
  case (7 h result w)
  then show ?case by (simp add: enableSalsa_trace enableSalsa_pending)
next
  case (13 h src dst lib k exists w)
  then show ?case by auto
next
  case (14 h src dst lib k err w)
  then show ?case by auto
next
  case (15 h lib k v w)
  then show ?case by auto
next
  case (16 h lib k err w)
  then show ?case by auto
qed (simp_all add: Let_def)

lemma list_all_remove1: "list_all P xs \<Longrightarrow> list_all P (remove1 x xs)"
  by (induction xs) auto

lemma perform_fulfilled_allowJs:
  "perform (AllowJs b) r w = Some (Fulfilled v, w1) \<Longrightarrow> v = Undefined"
  by (cases r) auto

lemma perform_fulfilled_copy:
  "perform (CopyRecursive s d) r w = Some (Fulfilled v, w1) \<Longrightarrow> v = Undefined"
  by (cases r) auto

lemma perform_pending_trace:
  "perform c r w = Some (out, w1) \<Longrightarrow> pending w1 = pending w \<and> trace w1 = trace w"
  by (induction c r w rule: perform.induct) auto

lemma settle_keeps_order:
  assumes "list_all (attached_as_written h) (pending w)"
  shows "\<exists>es. trace (settle h ck r w) = trace w @ es \<and>
     precedes (Settle (AllowJs True) ThenAddExcludePaths (Fulfilled Undefined))
              (Issue (AddExcludePaths [''node_modules'']) Finish) es \<and>
     precedes (Settle (CopyRecursive (reactTypingsSource h) (reactTypingsDest h))
                 ThenInstallTypescriptNext (Fulfilled Undefined))
              (Issue (Exists (typeScriptNextLibPath h))
                 (ThenCopyIfAbsent (typeScriptNextSource h) (typeScriptNextDest h)
                    (typeScriptNextLibPath h) Finish)) es \<and>
     list_all (attached_as_written h) (pending (settle h ck r w))"
proof (cases "ck \<in> set (pending w) \<and> perform (fst ck) r w \<noteq> None")
  case False
  then have "settle h ck r w = w"
    by (cases "perform (fst ck) r w") (auto simp: settle_def)
  with assms show ?thesis by simp
next
  case True
  obtain c k where ck: "ck = (c, k)" by (cases ck)
  from True ck obtain out w1 where p: "perform c r w = Some (out, w1)" by auto
  from True ck assms have att: "attached_as_written h (c, k)"
    by (auto simp: list_all_iff)
  let ?w2 = "w1\<lparr>pending := remove1 ck (pending w1), trace := trace w1 @ [Settle c k out]\<rparr>"
  from resume_emits [OF att, of out ?w2]
  obtain es ps where e: "trace (resume h k out ?w2) = trace ?w2 @ es"
    "pending (resume h k out ?w2) = pending ?w2 @ ps"
    "list_all (attached_as_written h) ps"
    "Issue (AddExcludePaths [''node_modules'']) Finish \<in> set es \<longrightarrow>
        k = ThenAddExcludePaths \<and> (\<exists>v. out = Fulfilled v)"
    "Issue (Exists (typeScriptNextLibPath h))
        (ThenCopyIfAbsent (typeScriptNextSource h) (typeScriptNextDest h)
           (typeScriptNextLibPath h) Finish) \<in> set es \<longrightarrow>
        k = ThenInstallTypescriptNext \<and> (\<exists>v. out = Fulfilled v)"
    by blast
  have s: "settle h ck r w = resume h k out ?w2"
    using True ck p by (simp add: settle_def)
  have pt: "pending w1 = pending w" "trace w1 = trace w"
    using perform_pending_trace [OF p] by simp_all
  have t: "trace (settle h ck r w) = trace w @ (Settle c k out # es)"
    using s e(1) pt by simp
  have pe: "list_all (attached_as_written h) (pending (settle h ck r w))"
    using s e(2,3) pt assms by (simp add: list_all_remove1)
  have o1: "precedes (Settle (AllowJs True) ThenAddExcludePaths (Fulfilled Undefined))
              (Issue (AddExcludePaths [''node_modules'']) Finish) (Settle c k out # es)"
  proof (cases "Issue (AddExcludePaths [''node_modules'']) Finish \<in> set es")
    case False
    then show ?thesis by (simp add: precedes_absent)
  next
    case True
    with e(4) obtain v where "k = ThenAddExcludePaths" "out = Fulfilled v" by blast
    with att p show ?thesis by (auto dest: perform_fulfilled_allowJs)
  qed
  have o2: "precedes (Settle (CopyRecursive (reactTypingsSource h) (reactTypingsDest h))
                 ThenInstallTypescriptNext (Fulfilled Undefined))
              (Issue (Exists (typeScriptNextLibPath h))
                 (ThenCopyIfAbsent (typeScriptNextSource h) (typeScriptNextDest h)
                    (typeScriptNextLibPath h) Finish)) (Settle c k out # es)"
  proof (cases "Issue (Exists (typeScriptNextLibPath h))
        (ThenCopyIfAbsent (typeScriptNextSource h) (typeScriptNextDest h)
           (typeScriptNextLibPath h) Finish) \<in> set es")
    case False
    then show ?thesis by (simp add: precedes_absent)
  next
    case True
    with e(5) obtain v where "k = ThenInstallTypescriptNext" "out = Fulfilled v" by blast
    with att p show ?thesis by (auto dest: perform_fulfilled_copy)
  qed
  from t pe o1 o2 show ?thesis by blast
qed

lemma step_chains_in_order: "chains_in_order h w \<Longrightarrow> chains_in_order h (step h a w)"
proof (cases a)
  case (Settles ck r)
  assume i: "chains_in_order h w"
  then have "list_all (attached_as_written h) (pending w)"
    by (simp add: chains_in_order_def)
  from settle_keeps_order [OF this, of ck r] i Settles show ?thesis
    by (auto simp: chains_in_order_def precedes_append)
next
  case (SetEnv n v)
  assume "chains_in_order h w"
  with SetEnv show ?thesis by (simp add: chains_in_order_def)
qed

lemma run_chains_in_order: "chains_in_order h w \<Longrightarrow> chains_in_order h (run h acts w)"
  by (induction acts arbitrary: w) (simp_all add: step_chains_in_order)

lemma activate_chains_in_order:
  "pending w = [] \<Longrightarrow> trace w = [] \<Longrightarrow> chains_in_order h (activate h w)"
  by (simp add: chains_in_order_def activate_def Let_def)

lemma intellisense_chains_in_order:
  "pending w = [] \<Longrightarrow> trace w = [] \<Longrightarrow> chains_in_order h (setupReactNativeIntellisense h w)"
  by (simp add: chains_in_order_def setupReactNativeIntellisense_trace
        setupReactNativeIntellisense_pending salsaPrompt_def)

section \<open>The claims\<close>

text \<open>
  C9: \<^verbatim>\<open>enableSalsa\<close> tests the \<^verbatim>\<open>VSCODE_TSJS\<close> flag again at its entry. When the flag is
  set (truthy) at that moment, the function does nothing at all, also when it is reached
  because the user accepted the opt-in prompt: settling the prompt with the answer
  \<^verbatim>\<open>"Yes"\<close> then only records the settlement; no process is spawned, no installation is
  started and no restart notice is shown.
\<close>

theorem enableSalsa_flag_set_no_action:
  assumes "js_truthy (env_get (env w) ''VSCODE_TSJS'')"
  shows "enableSalsa h w = w \<and>
         settle h (salsaPrompt, ThenEnableSalsa) (Answer (Str ''Yes'')) w =
           (if List.member (pending w) (salsaPrompt, ThenEnableSalsa)
            then w\<lparr>pending := remove1 (salsaPrompt, ThenEnableSalsa) (pending w),
                   trace := trace w @ [Settle salsaPrompt ThenEnableSalsa (Fulfilled (Str ''Yes''))]\<rparr>
            else w)"
  using assms by (simp add: enableSalsa_def settle_def salsaPrompt_def)

text \<open>
  The prompt is shown while the flag is unset, the flag is then set in the process, and
  the user accepts: the trace ends with the settlement of the prompt.
\<close>

theorem enableSalsa_flag_set_no_action_witness:
  "js_truthy (env_get (env (step posix_host (SetEnv ''VSCODE_TSJS'' (Some ''1''))
        (setupReactNativeIntellisense posix_host fresh))) ''VSCODE_TSJS'') \<and>
   trace (run posix_host
            [SetEnv ''VSCODE_TSJS'' (Some ''1''),
             Settles (salsaPrompt, ThenEnableSalsa) (Answer (Str ''Yes''))]
            (setupReactNativeIntellisense posix_host fresh)) =
     [Issue salsaPrompt ThenEnableSalsa,
      Issue (AllowJs True) ThenAddExcludePaths,
      Issue (CopyRecursive ''/ext/ReactTypings'' ''/proj/.vscode/typings'') ThenInstallTypescriptNext,
      Settle salsaPrompt ThenEnableSalsa (Fulfilled (Str ''Yes''))]"
  using enableSalsa_flag_set_no_action
    [of "step posix_host (SetEnv ''VSCODE_TSJS'' (Some ''1''))
        (setupReactNativeIntellisense posix_host fresh)" posix_host]
  by (simp add: setupReactNativeIntellisense_def fresh_def env_get_def salsaPrompt_def
        settle_def reactTypingsSource_def reactTypingsDest_def posix_host_def
        posix_resolve_def posix_isAbsolute_def enableSalsa_def)

text \<open>
  C1: \<^verbatim>\<open>activate\<close> registers exactly the four commands \<^verbatim>\<open>reactNative.runAndroid\<close>,
  \<^verbatim>\<open>reactNative.runIos\<close>, \<^verbatim>\<open>reactNative.startPackager\<close> and \<^verbatim>\<open>reactNative.stopPackager\<close>
  before it returns, while the applicability check is still pending; whatever happens
  afterwards (the check answering true or false, failing, or never settling) leaves the
  registry as it is, and running any of the four delegates to the like-named method of the
  handler built from the workspace root.
\<close>

theorem activate_registers_four_commands:
  assumes "commands w = []"
  shows "commands (activate h w) =
           [(''reactNative.runAndroid'', rootPath h, RunAndroid),
            (''reactNative.runIos'', rootPath h, RunIos),
            (''reactNative.startPackager'', rootPath h, StartPackager),
            (''reactNative.stopPackager'', rootPath h, StopPackager)] \<and>
         pending (activate h w) = pending w @ [(IsReactNativeProject (rootPath h), Activated)] \<and>
         trace (activate h w) = trace w @ [Issue (IsReactNativeProject (rootPath h)) Activated] \<and>
         commands (run h acts (activate h w)) = commands (activate h w) \<and>
         trace (executeCommand ''reactNative.runAndroid'' (run h acts (activate h w))) =
           trace (run h acts (activate h w)) @ [Delegate (rootPath h) RunAndroid] \<and>
         trace (executeCommand ''reactNative.runIos'' (run h acts (activate h w))) =
           trace (run h acts (activate h w)) @ [Delegate (rootPath h) RunIos] \<and>
         trace (executeCommand ''reactNative.startPackager'' (run h acts (activate h w))) =
           trace (run h acts (activate h w)) @ [Delegate (rootPath h) StartPackager] \<and>
         trace (executeCommand ''reactNative.stopPackager'' (run h acts (activate h w))) =
           trace (run h acts (activate h w)) @ [Delegate (rootPath h) StopPackager]"
proof -
  have c: "commands (activate h w) =
           [(''reactNative.runAndroid'', rootPath h, RunAndroid),
            (''reactNative.runIos'', rootPath h, RunIos),
            (''reactNative.startPackager'', rootPath h, StartPackager),
            (''reactNative.stopPackager'', rootPath h, StopPackager)]"
    using assms by (simp add: activate_def Let_def)
  have p: "pending (activate h w) = pending w @ [(IsReactNativeProject (rootPath h), Activated)]"
    by (simp add: activate_def Let_def)
  have t: "trace (activate h w) = trace w @ [Issue (IsReactNativeProject (rootPath h)) Activated]"
    by (simp add: activate_def Let_def)
  have r: "commands (run h acts (activate h w)) = commands (activate h w)"
    by simp
  show ?thesis
    using c p t by (simp add: executeCommand_def)
qed

text \<open>
  An activation in a workspace that is not a React Native project: the four commands are
  registered and \<^verbatim>\<open>reactNative.runIos\<close> delegates to \<^verbatim>\<open>runIos\<close>.
\<close>

theorem activate_registers_four_commands_witness:
  "commands fresh = [] \<and>
   map fst (commands (run posix_host
      [Settles (IsReactNativeProject ''/proj'', Activated) (Answer (Bool False))]
      (activate posix_host fresh))) =
     [''reactNative.runAndroid'', ''reactNative.runIos'', ''reactNative.startPackager'',
      ''reactNative.stopPackager''] \<and>
   trace (executeCommand ''reactNative.runIos'' (run posix_host
      [Settles (IsReactNativeProject ''/proj'', Activated) (Answer (Bool False))]
      (activate posix_host fresh))) =
     [Issue (IsReactNativeProject ''/proj'') Activated,
      Settle (IsReactNativeProject ''/proj'') Activated (Fulfilled (Bool False)),
      Delegate ''/proj'' RunIos]"
  using activate_registers_four_commands [of fresh posix_host
      "[Settles (IsReactNativeProject ''/proj'', Activated) (Answer (Bool False))]"]
  by (simp add: fresh_def posix_host_def activate_def Let_def settle_def issue_def)

text \<open>
  C5: what \<^verbatim>\<open>setupReactNativeIntellisense\<close> issues, on every host: the confirmation prompt
  is issued exactly when \<^verbatim>\<open>process.env.VSCODE_TSJS\<close> is falsy at that moment (absent, or
  the empty string), and never when the flag is set to a non-empty value; the two other
  calls are issued in both cases.
\<close>

theorem intellisense_prompt_only_when_flag_unset:
  "trace (setupReactNativeIntellisense h w) =
     trace w @
     (if js_truthy (env_get (env w) ''VSCODE_TSJS'') then []
      else [Issue (ShowInformationMessage ''Turn on Salsa intellisense for VS Code?'' [''Yes''])
              ThenEnableSalsa]) @
     [Issue (AllowJs True) ThenAddExcludePaths,
      Issue (CopyRecursive (reactTypingsSource h) (reactTypingsDest h)) ThenInstallTypescriptNext]"
  by (simp add: setupReactNativeIntellisense_def Let_def salsaPrompt_def)

text \<open>
  With \<^verbatim>\<open>VSCODE_TSJS=1\<close> on a macOS host no prompt is issued; with the variable absent
  on a Linux host the prompt is issued, and so it is when the variable is present but
  empty (the test of line 71 is JavaScript truthiness).
\<close>

theorem intellisense_prompt_only_when_flag_unset_witness:
  "trace (setupReactNativeIntellisense (posix_host\<lparr>os_type := node_os_type MacOS\<rparr>)
      (fresh\<lparr>env := [''VSCODE_TSJS'' \<mapsto> ''1'']\<rparr>)) =
     [Issue (AllowJs True) ThenAddExcludePaths,
      Issue (CopyRecursive ''/ext/ReactTypings'' ''/proj/.vscode/typings'') ThenInstallTypescriptNext] \<and>
   trace (setupReactNativeIntellisense posix_host fresh) =
     [Issue (ShowInformationMessage ''Turn on Salsa intellisense for VS Code?'' [''Yes''])
        ThenEnableSalsa,
      Issue (AllowJs True) ThenAddExcludePaths,
      Issue (CopyRecursive ''/ext/ReactTypings'' ''/proj/.vscode/typings'') ThenInstallTypescriptNext] \<and>
   trace (setupReactNativeIntellisense posix_host (fresh\<lparr>env := [''VSCODE_TSJS'' \<mapsto> []]\<rparr>)) =
     [Issue (ShowInformationMessage ''Turn on Salsa intellisense for VS Code?'' [''Yes''])
        ThenEnableSalsa,
      Issue (AllowJs True) ThenAddExcludePaths,
      Issue (CopyRecursive ''/ext/ReactTypings'' ''/proj/.vscode/typings'') ThenInstallTypescriptNext]"
  using intellisense_prompt_only_when_flag_unset
    [of "posix_host\<lparr>os_type := node_os_type MacOS\<rparr>" "fresh\<lparr>env := [''VSCODE_TSJS'' \<mapsto> ''1'']\<rparr>"]
    intellisense_prompt_only_when_flag_unset [of posix_host fresh]
    intellisense_prompt_only_when_flag_unset
    [of posix_host "fresh\<lparr>env := [''VSCODE_TSJS'' \<mapsto> []]\<rparr>"]
  by (simp add: fresh_def posix_host_def env_get_def reactTypingsSource_def reactTypingsDest_def 
        posix_resolve_def posix_isAbsolute_def)

text \<open>
  C7: the command is \<^verbatim>\<open>launchctl setenv VSCODE_TSJS 1\<close> on macOS, and it would be
  \<^verbatim>\<open>setx VSCODE_TSJS 1\<close> if \<^verbatim>\<open>os.type()\<close> were \<^verbatim>\<open>Windows\<close>. On a Windows host
  \<^verbatim>\<open>os.type()\<close> is \<^verbatim>\<open>Windows_NT\<close>, which the comparison of line 121 never matches: with
  the flag unset, \<^verbatim>\<open>enableSalsa\<close> leaves \<^verbatim>\<open>setSalsaEnvVariable\<close> empty and hands the empty
  command to \<^verbatim>\<open>childProcess.exec\<close>, so \<^verbatim>\<open>setx VSCODE_TSJS 1\<close> is not executed.
\<close>

theorem enableSalsa_windows_empty_command:
  "setSalsaEnvVariable (h\<lparr>os_type := node_os_type MacOS\<rparr>) = ''launchctl setenv VSCODE_TSJS 1'' \<and>
   setSalsaEnvVariable (h\<lparr>os_type := ''Windows''\<rparr>) = ''setx VSCODE_TSJS 1'' \<and>
   setSalsaEnvVariable (h\<lparr>os_type := node_os_type Windows\<rparr>) = [] \<and>
   trace (enableSalsa (h\<lparr>os_type := node_os_type Windows\<rparr>)
            (w\<lparr>env := (env w)(''VSCODE_TSJS'' := None)\<rparr>)) =
     trace w @
     [Issue (Exec []) Dropped,
      Issue (Exists (typeScriptNextLibPath h))
        (ThenCopyIfAbsent (typeScriptNextSource h) (typeScriptNextDest h)
           (typeScriptNextLibPath h) ThenRestartNotice)]"
  by (simp add: setSalsaEnvVariable_def node_os_type_def enableSalsa_def env_get_def
        typeScriptNextLibPath_def typeScriptNextSource_def typeScriptNextDest_def)

text \<open>
  C10: \<^verbatim>\<open>installTypescriptNext\<close> does not depend on \<^verbatim>\<open>HOME\<close> and \<^verbatim>\<open>USERPROFILE\<close>. Started in
  two worlds that differ only in these two variables, and given the same replies to the
  calls it and its callbacks issue, the two runs agree on everything: the calls issued and
  settled, the file system, the settings and what is still pending. (Line 103 reads the
  variables into a local that nothing uses.)
\<close>

theorem installTypescriptNext_ignores_home:
  "run h (map (\<lambda>(ck, r). Settles ck r) replies)
      (installTypescriptNext h k (w\<lparr>env := (env w)(''HOME'' := a, ''USERPROFILE'' := b)\<rparr>)) =
   (run h (map (\<lambda>(ck, r). Settles ck r) replies) (installTypescriptNext h k w))
      \<lparr>env := (env w)(''HOME'' := a, ''USERPROFILE'' := b)\<rparr>"
proof -
  have "run h (map (\<lambda>(ck, r). Settles ck r) replies) (installTypescriptNext h k (set_home a b w)) =
        set_home a b (run h (map (\<lambda>(ck, r). Settles ck r) replies) (installTypescriptNext h k w))"
    by (simp add: set_home_install set_home_run)
  moreover have "env (run h (map (\<lambda>(ck, r). Settles ck r) replies) (installTypescriptNext h k w)) = env w"
    by (simp add: run_settles_env)
  ultimately show ?thesis by (simp add: set_home_def)
qed

text \<open>
  The toolchain is absent, the copy and the settings write succeed: with only \<^verbatim>\<open>HOME\<close>
  set and with only \<^verbatim>\<open>USERPROFILE\<close> set the same events are seen.
\<close>

theorem installTypescriptNext_ignores_home_witness:
  "trace (run posix_host
     (map (\<lambda>(ck, r). Settles ck r)
        [((Exists ''/proj/.vscode/typescript/lib'',
           ThenCopyIfAbsent ''/ext/TypescriptNext'' ''/proj/.vscode'' ''/proj/.vscode/typescript/lib'' Finish), Ok),
         ((CopyRecursive ''/ext/TypescriptNext'' ''/proj/.vscode'',
           ThenTypescriptTsdk ''/proj/.vscode/typescript/lib'' Finish), Ok),
         ((TypescriptTsdk ''/proj/.vscode/typescript/lib'', Finish), Ok)])
     (installTypescriptNext posix_host Finish
        (fresh\<lparr>env := (env fresh)(''HOME'' := Some ''/home/dev'', ''USERPROFILE'' := None)\<rparr>))) =
   trace (run posix_host
     (map (\<lambda>(ck, r). Settles ck r)
        [((Exists ''/proj/.vscode/typescript/lib'',
           ThenCopyIfAbsent ''/ext/TypescriptNext'' ''/proj/.vscode'' ''/proj/.vscode/typescript/lib'' Finish), Ok),
         ((CopyRecursive ''/ext/TypescriptNext'' ''/proj/.vscode'',
           ThenTypescriptTsdk ''/proj/.vscode/typescript/lib'' Finish), Ok),
         ((TypescriptTsdk ''/proj/.vscode/typescript/lib'', Finish), Ok)])
     (installTypescriptNext posix_host Finish
        (fresh\<lparr>env := (env fresh)(''HOME'' := None, ''USERPROFILE'' := Some ''/Users/dev'')\<rparr>))) \<and>
   trace (run posix_host
     (map (\<lambda>(ck, r). Settles ck r)
        [((Exists ''/proj/.vscode/typescript/lib'',
           ThenCopyIfAbsent ''/ext/TypescriptNext'' ''/proj/.vscode'' ''/proj/.vscode/typescript/lib'' Finish), Ok),
         ((CopyRecursive ''/ext/TypescriptNext'' ''/proj/.vscode'',
           ThenTypescriptTsdk ''/proj/.vscode/typescript/lib'' Finish), Ok),
         ((TypescriptTsdk ''/proj/.vscode/typescript/lib'', Finish), Ok)])
     (installTypescriptNext posix_host Finish
        (fresh\<lparr>env := (env fresh)(''HOME'' := Some ''/home/dev'', ''USERPROFILE'' := None)\<rparr>))) =
   [Issue (Exists ''/proj/.vscode/typescript/lib'')
      (ThenCopyIfAbsent ''/ext/TypescriptNext'' ''/proj/.vscode'' ''/proj/.vscode/typescript/lib'' Finish),
    Settle (Exists ''/proj/.vscode/typescript/lib'')
      (ThenCopyIfAbsent ''/ext/TypescriptNext'' ''/proj/.vscode'' ''/proj/.vscode/typescript/lib'' Finish)
      (Fulfilled (Bool False)),
    Issue (CopyRecursive ''/ext/TypescriptNext'' ''/proj/.vscode'')
      (ThenTypescriptTsdk ''/proj/.vscode/typescript/lib'' Finish),
    Settle (CopyRecursive ''/ext/TypescriptNext'' ''/proj/.vscode'')
      (ThenTypescriptTsdk ''/proj/.vscode/typescript/lib'' Finish) (Fulfilled Undefined),
    Issue (TypescriptTsdk ''/proj/.vscode/typescript/lib'') Finish,
    Settle (TypescriptTsdk ''/proj/.vscode/typescript/lib'') Finish (Fulfilled Undefined)]"
  using installTypescriptNext_ignores_home [of posix_host _ Finish fresh "Some ''/home/dev''" None]
    installTypescriptNext_ignores_home [of posix_host _ Finish fresh None "Some ''/Users/dev''"]
  by (simp add: fresh_def settle_def fs_exists_def typeScriptNextLibPath_def typeScriptNextDest_def
        typeScriptNextSource_def posix_host_def posix_join_def posix_normalize_def
        posix_resolve_def posix_isAbsolute_def)

text \<open>
  C4: on every call of \<^verbatim>\<open>installTypescriptNext\<close> the path
  \<^verbatim>\<open>join(resolve(rootPath, ".vscode"), "typescript", "lib")\<close> is probed. When it exists, no
  copy is issued, the file system stays as it is and the settings write of that same path
  follows; when it is absent, the bundled tree is copied into the \<^verbatim>\<open>.vscode\<close> directory and
  the same settings write follows. (The replies are the successful ones; what the caller
  attached to the returned promise runs after the last event listed.)
\<close>

theorem installTypescriptNext_copies_only_when_absent:
  "(let lib = typeScriptNextLibPath h;
        src = typeScriptNextSource h;
        dst = typeScriptNextDest h;
        probe = ThenCopyIfAbsent src dst lib k
    in if fs_exists lib (fs w)
       then (let w' = run h [Settles (Exists lib, probe) Ok, Settles (TypescriptTsdk lib, k) Ok]
                        (installTypescriptNext h k w)
             in prefix (trace w @
                  [Issue (Exists lib) probe,
                   Settle (Exists lib) probe (Fulfilled (Bool True)),
                   Issue (TypescriptTsdk lib) k,
                   Settle (TypescriptTsdk lib) k (Fulfilled Undefined)]) (trace w') \<and>
                fs w' = fs w \<and> typescript_tsdk w' = Some lib)
       else (let w' = run h [Settles (Exists lib, probe) Ok,
                             Settles (CopyRecursive src dst, ThenTypescriptTsdk lib k) Ok,
                             Settles (TypescriptTsdk lib, k) Ok]
                        (installTypescriptNext h k w)
             in prefix (trace w @
                  [Issue (Exists lib) probe,
                   Settle (Exists lib) probe (Fulfilled (Bool False)),
                   Issue (CopyRecursive src dst) (ThenTypescriptTsdk lib k),
                   Settle (CopyRecursive src dst) (ThenTypescriptTsdk lib k) (Fulfilled Undefined),
                   Issue (TypescriptTsdk lib) k,
                   Settle (TypescriptTsdk lib) k (Fulfilled Undefined)]) (trace w') \<and>
                fs w' = fs_copyRecursive src dst (fs w) \<and> typescript_tsdk w' = Some lib))"
  by (simp add: Let_def settle_def)

text \<open>
  A workspace \<^verbatim>\<open>/proj\<close> without the toolchain: the bundled \<^verbatim>\<open>typescript/lib\<close> is copied and
  \<^verbatim>\<open>/proj/.vscode/typescript/lib\<close> is recorded in the settings. A second call in the
  resulting workspace finds the path and issues no copy.
\<close>

theorem installTypescriptNext_copies_only_when_absent_witness:
  "fs (run posix_host
         [Settles (Exists ''/proj/.vscode/typescript/lib'',
            ThenCopyIfAbsent ''/ext/TypescriptNext'' ''/proj/.vscode'' ''/proj/.vscode/typescript/lib'' Finish) Ok,
          Settles (CopyRecursive ''/ext/TypescriptNext'' ''/proj/.vscode'',
            ThenTypescriptTsdk ''/proj/.vscode/typescript/lib'' Finish) Ok,
          Settles (TypescriptTsdk ''/proj/.vscode/typescript/lib'', Finish) Ok]
         (installTypescriptNext posix_host Finish
            (fresh\<lparr>fs := [(''/ext/TypescriptNext/typescript/lib'', Dir)]\<rparr>))) =
     [(''/ext/TypescriptNext/typescript/lib'', Dir), (''/proj/.vscode/typescript/lib'', Dir)] \<and>
   typescript_tsdk (run posix_host
         [Settles (Exists ''/proj/.vscode/typescript/lib'',
            ThenCopyIfAbsent ''/ext/TypescriptNext'' ''/proj/.vscode'' ''/proj/.vscode/typescript/lib'' Finish) Ok,
          Settles (CopyRecursive ''/ext/TypescriptNext'' ''/proj/.vscode'',
            ThenTypescriptTsdk ''/proj/.vscode/typescript/lib'' Finish) Ok,
          Settles (TypescriptTsdk ''/proj/.vscode/typescript/lib'', Finish) Ok]
         (installTypescriptNext posix_host Finish
            (fresh\<lparr>fs := [(''/ext/TypescriptNext/typescript/lib'', Dir)]\<rparr>))) =
     Some ''/proj/.vscode/typescript/lib'' \<and>
   trace (run posix_host
         [Settles (Exists ''/proj/.vscode/typescript/lib'',
            ThenCopyIfAbsent ''/ext/TypescriptNext'' ''/proj/.vscode'' ''/proj/.vscode/typescript/lib'' Finish) Ok,
          Settles (TypescriptTsdk ''/proj/.vscode/typescript/lib'', Finish) Ok]
         (installTypescriptNext posix_host Finish
            (fresh\<lparr>fs := [(''/ext/TypescriptNext/typescript/lib'', Dir),
                            (''/proj/.vscode/typescript/lib'', Dir)]\<rparr>))) =
     [Issue (Exists ''/proj/.vscode/typescript/lib'')
        (ThenCopyIfAbsent ''/ext/TypescriptNext'' ''/proj/.vscode'' ''/proj/.vscode/typescript/lib'' Finish),
      Settle (Exists ''/proj/.vscode/typescript/lib'')
        (ThenCopyIfAbsent ''/ext/TypescriptNext'' ''/proj/.vscode'' ''/proj/.vscode/typescript/lib'' Finish)
        (Fulfilled (Bool True)),
      Issue (TypescriptTsdk ''/proj/.vscode/typescript/lib'') Finish,
      Settle (TypescriptTsdk ''/proj/.vscode/typescript/lib'') Finish (Fulfilled Undefined)]"
proof -
  have paths: "typeScriptNextSource posix_host = ''/ext/TypescriptNext''"
    "typeScriptNextDest posix_host = ''/proj/.vscode''"
    "typeScriptNextLibPath posix_host = ''/proj/.vscode/typescript/lib''"
    by (simp_all add: typeScriptNextSource_def typeScriptNextDest_def typeScriptNextLibPath_def
          posix_host_def posix_join_def posix_resolve_def posix_normalize_def posix_isAbsolute_def)
  show ?thesis
    using installTypescriptNext_copies_only_when_absent
      [of posix_host Finish "fresh\<lparr>fs := [(''/ext/TypescriptNext/typescript/lib'', Dir)]\<rparr>"]
    by (simp add: paths fresh_def settle_def fs_exists_def fs_copyRecursive_def below_def)
qed

text \<open>
  C2: for every name and version, the contents of the generated stub begin with the line
  \<^verbatim>\<open>// This file is automatically generated by <name>@<version>\<close> followed by the line
  \<^verbatim>\<open>// Please do not modify it manually. All changes will be lost.\<close>, the name and the
  version substituted as they are. The contents depend on the host only, so running the
  provisioner once and running it a second time leave the same bytes in the stub file.
\<close>

theorem stub_header_and_stable_contents:
  "prefix (''// This file is automatically generated by '' @ pkg_name h @ ''@'' @ pkg_version h @
           [CHR 0x0A] @
           ''// Please do not modify it manually. All changes will be lost.'' @ [CHR 0x0A])
          (debuggerEntryCode h) \<and>
   (let provision = (\<lambda>w. run h
           [Settles (EnsureDirectory (vscodeFolder h),
               ThenWriteStub (debugStub h) (debuggerEntryCode h)) Ok,
            Settles (EnsureFileWithContents (debugStub h) (debuggerEntryCode h), CatchShowError) Ok]
           (setupReactNativeDebugger h w))
    in map_of (fs (provision w)) (debugStub h) = Some (File (debuggerEntryCode h)) \<and>
       map_of (fs (provision (provision w))) (debugStub h) = Some (File (debuggerEntryCode h)))"
proof -
  have "prefix (''// This file is automatically generated by '' @ pkg_name h @ ''@'' @ pkg_version h @
           [CHR 0x0A] @
           ''// Please do not modify it manually. All changes will be lost.'' @ [CHR 0x0A])
          (debuggerEntryCode h)"
    unfolding debuggerEntryCode_def prefix_def by simp
  then show ?thesis
    unfolding Let_def using provision_writes_stub by blast
qed

text \<open>
  The header for the extension \<^verbatim>\<open>rn\<close> at version \<^verbatim>\<open>1.2\<close>, and the stub file of the
  workspace \<^verbatim>\<open>/proj\<close> after one run.
\<close>

theorem stub_header_and_stable_contents_witness:
  "prefix (''// This file is automatically generated by rn@1.2'' @ [CHR 0x0A] @
           ''// Please do not modify it manually. All changes will be lost.'' @ [CHR 0x0A])
     (debuggerEntryCode (posix_host\<lparr>pkg_name := ''rn'', pkg_version := ''1.2''\<rparr>)) \<and>
   map_of (fs (run posix_host
      [Settles (EnsureDirectory ''/proj/.vscode'',
          ThenWriteStub ''/proj/.vscode/launchReactNative.js'' (debuggerEntryCode posix_host)) Ok,
       Settles (EnsureFileWithContents ''/proj/.vscode/launchReactNative.js''
          (debuggerEntryCode posix_host), CatchShowError) Ok]
      (setupReactNativeDebugger posix_host fresh))) ''/proj/.vscode/launchReactNative.js'' =
     Some (File (debuggerEntryCode posix_host))"
proof -
  have paths: "vscodeFolder posix_host = ''/proj/.vscode''"
    "debugStub posix_host = ''/proj/.vscode/launchReactNative.js''"
    by (simp_all add: debugStub_def vscodeFolder_def posix_host_def posix_join_def
          posix_normalize_def posix_isAbsolute_def)
  have "prefix (''// This file is automatically generated by rn@1.2'' @ [CHR 0x0A] @
           ''// Please do not modify it manually. All changes will be lost.'' @ [CHR 0x0A])
     (debuggerEntryCode (posix_host\<lparr>pkg_name := ''rn'', pkg_version := ''1.2''\<rparr>))"
    using stub_header_and_stable_contents [of "posix_host\<lparr>pkg_name := ''rn'', pkg_version := ''1.2''\<rparr>" fresh]
    by simp
  moreover have "map_of (fs (run posix_host
      [Settles (EnsureDirectory ''/proj/.vscode'',
          ThenWriteStub ''/proj/.vscode/launchReactNative.js'' (debuggerEntryCode posix_host)) Ok,
       Settles (EnsureFileWithContents ''/proj/.vscode/launchReactNative.js''
          (debuggerEntryCode posix_host), CatchShowError) Ok]
      (setupReactNativeDebugger posix_host fresh))) ''/proj/.vscode/launchReactNative.js'' =
     Some (File (debuggerEntryCode posix_host))"
    using stub_header_and_stable_contents [of posix_host fresh]
    unfolding paths Let_def by blast
  ultimately show ?thesis by blast
qed

text \<open>
  C3: \<^verbatim>\<open>setupReactNativeDebugger\<close> first issues \<^verbatim>\<open>ensureDirectory\<close> on the \<^verbatim>\<open>.vscode\<close>
  folder and nothing else; when that succeeds (it does whether or not the folder was
  there, and then the folder exists) it issues the write of the stub, which replaces
  whatever the file held. When the first step fails with a message, or the second does,
  exactly one \<^verbatim>\<open>showErrorMessage\<close> with that message is issued; nothing is retried and
  nothing is undone: after a failed write the folder made by the first step is still
  there.
\<close>

theorem stub_provisioning_sequence:
  "(let dir = vscodeFolder h; stub = debugStub h; code = debuggerEntryCode h;
        ensure = (EnsureDirectory dir, ThenWriteStub stub code);
        write = (EnsureFileWithContents stub code, CatchShowError);
        w0 = setupReactNativeDebugger h w;
        done = run h [Settles ensure Ok, Settles write Ok] w0;
        dir_failed = run h [Settles ensure (Fail msg)] w0;
        write_failed = run h [Settles ensure Ok, Settles write (Fail msg)] w0
    in trace w0 = trace w @ [Issue (fst ensure) (snd ensure)] \<and>
       fs w0 = fs w \<and>
       trace done = trace w0 @
         [Settle (fst ensure) (snd ensure) (Fulfilled Undefined),
          Issue (fst write) (snd write),
          Settle (fst write) (snd write) (Fulfilled Undefined)] \<and>
       fs done = fs_ensureFileWithContents stub code (fs_ensureDirectory dir (fs w)) \<and>
       map_of (fs done) stub = Some (File code) \<and>
       fs_exists dir (fs_ensureDirectory dir (fs w)) \<and>
       (if fs_exists dir (fs w) then fs_ensureDirectory dir (fs w) = fs w
        else fs_ensureDirectory dir (fs w) = fs w @ [(dir, Dir)]) \<and>
       trace dir_failed = trace w0 @
         [Settle (fst ensure) (snd ensure) (Rejected msg),
          Issue (ShowErrorMessage msg) Dropped] \<and>
       fs dir_failed = fs w \<and>
       trace write_failed = trace w0 @
         [Settle (fst ensure) (snd ensure) (Fulfilled Undefined),
          Issue (fst write) (snd write),
          Settle (fst write) (snd write) (Rejected msg),
          Issue (ShowErrorMessage msg) Dropped] \<and>
       fs write_failed = fs_ensureDirectory dir (fs w) \<and>
       fs_exists dir (fs write_failed))"
  using fs_ensureDirectory_cases [of "vscodeFolder h" "fs w"]
  by (simp add: Let_def settle_def)

text \<open>
  The write fails with \<^verbatim>\<open>EACCES\<close> in an empty workspace: one error notification, and the
  folder \<^verbatim>\<open>/proj/.vscode\<close> stays.
\<close>

theorem stub_provisioning_sequence_witness:
  "trace (run posix_host
      [Settles (EnsureDirectory ''/proj/.vscode'',
          ThenWriteStub ''/proj/.vscode/launchReactNative.js'' (debuggerEntryCode posix_host)) Ok,
       Settles (EnsureFileWithContents ''/proj/.vscode/launchReactNative.js''
          (debuggerEntryCode posix_host), CatchShowError) (Fail ''EACCES: permission denied'')]
      (setupReactNativeDebugger posix_host fresh)) =
     [Issue (EnsureDirectory ''/proj/.vscode'')
        (ThenWriteStub ''/proj/.vscode/launchReactNative.js'' (debuggerEntryCode posix_host)),
      Settle (EnsureDirectory ''/proj/.vscode'')
        (ThenWriteStub ''/proj/.vscode/launchReactNative.js'' (debuggerEntryCode posix_host))
        (Fulfilled Undefined),
      Issue (EnsureFileWithContents ''/proj/.vscode/launchReactNative.js'' (debuggerEntryCode posix_host))
        CatchShowError,
      Settle (EnsureFileWithContents ''/proj/.vscode/launchReactNative.js'' (debuggerEntryCode posix_host))
        CatchShowError (Rejected ''EACCES: permission denied''),
      Issue (ShowErrorMessage ''EACCES: permission denied'') Dropped] \<and>
   fs (run posix_host
      [Settles (EnsureDirectory ''/proj/.vscode'',
          ThenWriteStub ''/proj/.vscode/launchReactNative.js'' (debuggerEntryCode posix_host)) Ok,
       Settles (EnsureFileWithContents ''/proj/.vscode/launchReactNative.js''
          (debuggerEntryCode posix_host), CatchShowError) (Fail ''EACCES: permission denied'')]
      (setupReactNativeDebugger posix_host fresh)) = [(''/proj/.vscode'', Dir)]"
proof -
  have paths: "vscodeFolder posix_host = ''/proj/.vscode''"
    "debugStub posix_host = ''/proj/.vscode/launchReactNative.js''"
    by (simp_all add: debugStub_def vscodeFolder_def posix_host_def posix_join_def
          posix_normalize_def posix_isAbsolute_def)
  have f: "trace fresh = []" "fs fresh = []"
    by (simp_all add: fresh_def)
  show ?thesis
    using stub_provisioning_sequence [of posix_host fresh "''EACCES: permission denied''"]
    unfolding paths Let_def
    by (simp add: f fs_ensureDirectory_def fs_exists_def del: fs_exists_ensureDirectory)
qed

text \<open>
  C8: the configuration chain of \<^verbatim>\<open>setupReactNativeIntellisense\<close> sets the allow-JavaScript
  flag to true and, once that has succeeded, appends \<^verbatim>\<open>node_modules\<close> to the exclusion
  list: the entry is added at the end when it is not in the list and the list is left as
  it is when it is; no other entry and no unrelated field changes.
\<close>

theorem tsconfig_mutation_additive:
  "(let w' = run h [Settles (AllowJs True, ThenAddExcludePaths) Ok,
                    Settles (AddExcludePaths [''node_modules''], Finish) Ok]
               (setupReactNativeIntellisense h w)
    in trace w' = trace (setupReactNativeIntellisense h w) @
         [Settle (AllowJs True) ThenAddExcludePaths (Fulfilled Undefined),
          Issue (AddExcludePaths [''node_modules'']) Finish,
          Settle (AddExcludePaths [''node_modules'']) Finish (Fulfilled Undefined)] \<and>
       allowJs (tsconfig_doc w') = Some True \<and>
       exclude (tsconfig_doc w') =
         (if List.member (exclude (tsconfig_doc w)) ''node_modules'' then exclude (tsconfig_doc w)
          else exclude (tsconfig_doc w) @ [''node_modules'']) \<and>
       unrelated (tsconfig_doc w') = unrelated (tsconfig_doc w))"
  by (simp add: Let_def settle_def setupReactNativeIntellisense_def tsconfig_allowJs_def)

text \<open>
  The exclusion list \<^verbatim>\<open>["a"]\<close> becomes \<^verbatim>\<open>["a", "node_modules"]\<close>, and a list that holds
  \<^verbatim>\<open>node_modules\<close> stays as it is.
\<close>

theorem tsconfig_mutation_additive_witness:
  "exclude (tsconfig_doc (run posix_host
      [Settles (AllowJs True, ThenAddExcludePaths) Ok,
       Settles (AddExcludePaths [''node_modules''], Finish) Ok]
      (setupReactNativeIntellisense posix_host
         (fresh\<lparr>tsconfig_doc := \<lparr>allowJs = None, exclude = [''a''],
                                   unrelated = [(''compileOnSave'', ''true'')]\<rparr>\<rparr>)))) =
     [''a'', ''node_modules''] \<and>
   exclude (tsconfig_doc (run posix_host
      [Settles (AllowJs True, ThenAddExcludePaths) Ok,
       Settles (AddExcludePaths [''node_modules''], Finish) Ok]
      (setupReactNativeIntellisense posix_host
         (fresh\<lparr>tsconfig_doc := \<lparr>allowJs = Some False, exclude = [''node_modules'', ''a''],
                                   unrelated = []\<rparr>\<rparr>)))) =
     [''node_modules'', ''a'']"
  using tsconfig_mutation_additive [of posix_host
      "fresh\<lparr>tsconfig_doc := \<lparr>allowJs = None, exclude = [''a''],
                                   unrelated = [(''compileOnSave'', ''true'')]\<rparr>\<rparr>"]
    tsconfig_mutation_additive [of posix_host
      "fresh\<lparr>tsconfig_doc := \<lparr>allowJs = Some False, exclude = [''node_modules'', ''a''],
                                   unrelated = []\<rparr>\<rparr>"]
  by (simp add: Let_def fresh_def)

text \<open>
  C6, as amended: \<^verbatim>\<open>setupReactNativeIntellisense\<close> starts two separate chains in one
  synchronous call: it issues \<^verbatim>\<open>allowJs(true)\<close> and, right after it, the copy of the
  typings, before anything has settled. In every run that follows, whatever settles in
  whatever order, \<^verbatim>\<open>addExcludePaths\<close> is issued only after \<^verbatim>\<open>allowJs(true)\<close> has
  succeeded, and the installation attached to the typings is issued only after the copy
  of the typings has succeeded. This holds from the bootstrapper alone and from a whole
  activation.
\<close>

theorem intellisense_two_chains_order:
  assumes "pending w = []" and "trace w = []"
  shows
    "trace (setupReactNativeIntellisense h w) =
       (if js_truthy (env_get (env w) ''VSCODE_TSJS'') then []
        else [Issue salsaPrompt ThenEnableSalsa]) @
       [Issue (AllowJs True) ThenAddExcludePaths,
        Issue (CopyRecursive (reactTypingsSource h) (reactTypingsDest h)) ThenInstallTypescriptNext] \<and>
     precedes (Settle (AllowJs True) ThenAddExcludePaths (Fulfilled Undefined))
              (Issue (AddExcludePaths [''node_modules'']) Finish)
              (trace (run h acts (setupReactNativeIntellisense h w))) \<and>
     precedes (Settle (CopyRecursive (reactTypingsSource h) (reactTypingsDest h))
                 ThenInstallTypescriptNext (Fulfilled Undefined))
              (Issue (Exists (typeScriptNextLibPath h))
                 (ThenCopyIfAbsent (typeScriptNextSource h) (typeScriptNextDest h)
                    (typeScriptNextLibPath h) Finish))
              (trace (run h acts (setupReactNativeIntellisense h w))) \<and>
     precedes (Settle (AllowJs True) ThenAddExcludePaths (Fulfilled Undefined))
              (Issue (AddExcludePaths [''node_modules'']) Finish)
              (trace (run h acts (activate h w))) \<and>
     precedes (Settle (CopyRecursive (reactTypingsSource h) (reactTypingsDest h))
                 ThenInstallTypescriptNext (Fulfilled Undefined))
              (Issue (Exists (typeScriptNextLibPath h))
                 (ThenCopyIfAbsent (typeScriptNextSource h) (typeScriptNextDest h)
                    (typeScriptNextLibPath h) Finish))
              (trace (run h acts (activate h w)))"
proof -
  have "chains_in_order h (run h acts (setupReactNativeIntellisense h w))"
    using assms by (simp add: run_chains_in_order intellisense_chains_in_order)
  moreover have "chains_in_order h (run h acts (activate h w))"
    using assms by (simp add: run_chains_in_order activate_chains_in_order)
  moreover have "trace (setupReactNativeIntellisense h w) =
       (if js_truthy (env_get (env w) ''VSCODE_TSJS'') then []
        else [Issue salsaPrompt ThenEnableSalsa]) @
       [Issue (AllowJs True) ThenAddExcludePaths,
        Issue (CopyRecursive (reactTypingsSource h) (reactTypingsDest h)) ThenInstallTypescriptNext]"
    using assms by (simp add: setupReactNativeIntellisense_trace)
  ultimately show ?thesis
    unfolding chains_in_order_def by blast
qed

text \<open>
  An activation in which the typings are copied before \<^verbatim>\<open>allowJs(true)\<close> settles: the
  installation is under way while the configuration has not been touched.
\<close>

theorem intellisense_two_chains_order_witness:
  "pending fresh = [] \<and> trace fresh = [] \<and>
   trace (run posix_host
      [Settles (IsReactNativeProject ''/proj'', Activated) (Answer (Bool True)),
       Settles (CopyRecursive ''/ext/ReactTypings'' ''/proj/.vscode/typings'',
                ThenInstallTypescriptNext) Ok,
       Settles (AllowJs True, ThenAddExcludePaths) Ok]
      (activate posix_host fresh)) =
     [Issue (IsReactNativeProject ''/proj'') Activated,
      Settle (IsReactNativeProject ''/proj'') Activated (Fulfilled (Bool True)),
      Issue (EnsureDirectory ''/proj/.vscode'')
        (ThenWriteStub ''/proj/.vscode/launchReactNative.js'' (debuggerEntryCode posix_host)),
      Issue salsaPrompt ThenEnableSalsa,
      Issue (AllowJs True) ThenAddExcludePaths,
      Issue (CopyRecursive ''/ext/ReactTypings'' ''/proj/.vscode/typings'') ThenInstallTypescriptNext,
      Settle (CopyRecursive ''/ext/ReactTypings'' ''/proj/.vscode/typings'')
        ThenInstallTypescriptNext (Fulfilled Undefined),
      Issue (Exists ''/proj/.vscode/typescript/lib'')
        (ThenCopyIfAbsent ''/ext/TypescriptNext'' ''/proj/.vscode'' ''/proj/.vscode/typescript/lib'' Finish),
      Settle (AllowJs True) ThenAddExcludePaths (Fulfilled Undefined),
      Issue (AddExcludePaths [''node_modules'']) Finish] \<and>
   precedes (Settle (AllowJs True) ThenAddExcludePaths (Fulfilled Undefined))
      (Issue (AddExcludePaths [''node_modules'']) Finish)
      (trace (run posix_host
        [Settles (IsReactNativeProject ''/proj'', Activated) (Answer (Bool True)),
         Settles (CopyRecursive ''/ext/ReactTypings'' ''/proj/.vscode/typings'',
                  ThenInstallTypescriptNext) Ok,
         Settles (AllowJs True, ThenAddExcludePaths) Ok]
        (activate posix_host fresh)))"
proof -
  have paths: "vscodeFolder posix_host = ''/proj/.vscode''"
    "debugStub posix_host = ''/proj/.vscode/launchReactNative.js''"
    "reactTypingsSource posix_host = ''/ext/ReactTypings''"
    "reactTypingsDest posix_host = ''/proj/.vscode/typings''"
    "typeScriptNextSource posix_host = ''/ext/TypescriptNext''"
    "typeScriptNextDest posix_host = ''/proj/.vscode''"
    "typeScriptNextLibPath posix_host = ''/proj/.vscode/typescript/lib''"
    "rootPath posix_host = ''/proj''"
    by (simp_all add: debugStub_def vscodeFolder_def reactTypingsSource_def reactTypingsDest_def
          typeScriptNextSource_def typeScriptNextDest_def typeScriptNextLibPath_def
          posix_host_def posix_join_def posix_resolve_def posix_normalize_def posix_isAbsolute_def)
  have f: "pending fresh = []" "trace fresh = []" "env_get (env fresh) ''VSCODE_TSJS'' = Undefined"
    by (simp_all add: fresh_def env_get_def)
  have t: "trace (run posix_host
      [Settles (IsReactNativeProject ''/proj'', Activated) (Answer (Bool True)),
       Settles (CopyRecursive ''/ext/ReactTypings'' ''/proj/.vscode/typings'',
                ThenInstallTypescriptNext) Ok,
       Settles (AllowJs True, ThenAddExcludePaths) Ok]
      (activate posix_host fresh)) =
     [Issue (IsReactNativeProject ''/proj'') Activated,
      Settle (IsReactNativeProject ''/proj'') Activated (Fulfilled (Bool True)),
      Issue (EnsureDirectory ''/proj/.vscode'')
        (ThenWriteStub ''/proj/.vscode/launchReactNative.js'' (debuggerEntryCode posix_host)),
      Issue salsaPrompt ThenEnableSalsa,
      Issue (AllowJs True) ThenAddExcludePaths,
      Issue (CopyRecursive ''/ext/ReactTypings'' ''/proj/.vscode/typings'') ThenInstallTypescriptNext,
      Settle (CopyRecursive ''/ext/ReactTypings'' ''/proj/.vscode/typings'')
        ThenInstallTypescriptNext (Fulfilled Undefined),
      Issue (Exists ''/proj/.vscode/typescript/lib'')
        (ThenCopyIfAbsent ''/ext/TypescriptNext'' ''/proj/.vscode'' ''/proj/.vscode/typescript/lib'' Finish),
      Settle (AllowJs True) ThenAddExcludePaths (Fulfilled Undefined),
      Issue (AddExcludePaths [''node_modules'']) Finish]"
    by (simp add: activate_def Let_def settle_def paths f setupReactNativeIntellisense_trace
          setupReactNativeIntellisense_pending salsaPrompt_def)
  show ?thesis
    using intellisense_two_chains_order [of fresh posix_host
      "[Settles (IsReactNativeProject ''/proj'', Activated) (Answer (Bool True)),
        Settles (CopyRecursive ''/ext/ReactTypings'' ''/proj/.vscode/typings'',
                ThenInstallTypescriptNext) Ok,
        Settles (AllowJs True, ThenAddExcludePaths) Ok]"] t f
    by simp
qed

text \<open>
  C6, as stated, fails: when \<^verbatim>\<open>setupReactNativeIntellisense\<close> returns, the copy of the
  typings has been issued although neither \<^verbatim>\<open>allowJs(true)\<close> nor \<^verbatim>\<open>addExcludePaths\<close>
  has settled (the latter has not even been issued).
\<close>

theorem typings_mirror_waits_for_config_counterexample:
  "trace (setupReactNativeIntellisense posix_host fresh) =
     [Issue salsaPrompt ThenEnableSalsa,
      Issue (AllowJs True) ThenAddExcludePaths,
      Issue (CopyRecursive ''/ext/ReactTypings'' ''/proj/.vscode/typings'') ThenInstallTypescriptNext] \<and>
   \<not> precedes (Settle (AddExcludePaths [''node_modules'']) Finish (Fulfilled Undefined))
        (Issue (CopyRecursive ''/ext/ReactTypings'' ''/proj/.vscode/typings'') ThenInstallTypescriptNext)
        (trace (setupReactNativeIntellisense posix_host fresh)) \<and>
   \<not> precedes (Settle (AllowJs True) ThenAddExcludePaths (Fulfilled Undefined))
        (Issue (CopyRecursive ''/ext/ReactTypings'' ''/proj/.vscode/typings'') ThenInstallTypescriptNext)
        (trace (setupReactNativeIntellisense posix_host fresh))"
proof -
  have paths: "reactTypingsSource posix_host = ''/ext/ReactTypings''"
    "reactTypingsDest posix_host = ''/proj/.vscode/typings''"
    by (simp_all add: reactTypingsSource_def reactTypingsDest_def
          posix_host_def posix_resolve_def posix_isAbsolute_def)
  have f: "trace fresh = []" "env_get (env fresh) ''VSCODE_TSJS'' = Undefined"
    by (simp_all add: fresh_def env_get_def)
  show ?thesis
    by (simp add: setupReactNativeIntellisense_trace paths f salsaPrompt_def)
qed

end
